theory Spec2Isabelle
  imports Complex_Main
begin

section \<open>Data model (types.ts)\<close>

text \<open>
  JavaScript numbers are modelled as real numbers: the rounding of double arithmetic is
  ignored. Two things are modelled on top of that. The non-finite values of a number,
  where they decide a property (the unguarded division of the openness ratio, and a
  coordinate too large for a \<open>Float32Array\<close>), are modelled with \<open>jsnum\<close> below.
  A store into a \<open>Float32Array\<close> rounds to single precision (\<open>float32\<close> below).

  A \<open>HandLandmark\<close> is the object \<open>{x, y, z}\<close>; the fields are named \<open>lx\<close>,
  \<open>ly\<close>, \<open>lz\<close> here.
\<close>

record HandLandmark =
  lx :: real
  ly :: real
  lz :: real

datatype AppState = IDLE | INTERACTIVE | TEXT_MODE

text \<open>
  \<open>TypeError\<close> is the exception JavaScript raises when a property of \<open>undefined\<close>
  is read, which is what \<open>landmarks[i].x\<close> does when \<open>i\<close> is past the end of the
  array. \<open>NaNPositions\<close> is not an exception: it marks a frame that runs to its end
  but writes NaN into every position, which the real-valued buffers of this model
  cannot hold.
\<close>

datatype failure = TypeError | NaNPositions

definition bindE :: "failure + 'a \<Rightarrow> ('a \<Rightarrow> failure + 'b) \<Rightarrow> failure + 'b" where
  "bindE m f = (case m of Inl e \<Rightarrow> Inl e | Inr v \<Rightarrow> f v)"

fun mapE :: "('a \<Rightarrow> failure + 'b) \<Rightarrow> 'a list \<Rightarrow> failure + 'b list" where
  "mapE f [] = Inr []"
| "mapE f (a # as) = bindE (f a) (\<lambda>b. bindE (mapE f as) (\<lambda>bs. Inr (b # bs)))"

text \<open>Reading a field of \<open>xs[i]\<close>: the element, or a TypeError past the end.\<close>

definition elemAt :: "'a list \<Rightarrow> nat \<Rightarrow> failure + 'a" where
  "elemAt xs i = (if i < length xs then Inr (xs ! i) else Inl TypeError)"

section \<open>Gesture classifier (utils/gestureUtils.ts)\<close>

definition distance :: "HandLandmark \<Rightarrow> HandLandmark \<Rightarrow> real" where
  "distance a b = sqrt ((lx a - lx b)\<^sup>2 + (ly a - ly b)\<^sup>2 + (lz a - lz b)\<^sup>2)"

definition isFingerExtended :: "HandLandmark list \<Rightarrow> nat \<Rightarrow> nat \<Rightarrow> failure + bool" where
  "isFingerExtended landmarks tipIdx pipIdx =
     bindE (elemAt landmarks 0) (\<lambda>wrist.
     bindE (elemAt landmarks tipIdx) (\<lambda>tip.
     bindE (elemAt landmarks pipIdx) (\<lambda>pip.
       Inr (distance wrist tip > distance wrist pip))))"

text \<open>
  The argument is \<open>None\<close> for a null or undefined array (the test \<open>!landmarks\<close>).
  The five extension tests are evaluated before any label is returned.
\<close>

definition detectGesture :: "HandLandmark list option \<Rightarrow> failure + string" where
  "detectGesture arg =
     (case arg of
        None \<Rightarrow> Inr ''unknown''
      | Some landmarks \<Rightarrow>
          if length landmarks = 0 then Inr ''unknown''
          else
            bindE (isFingerExtended landmarks 4 2) (\<lambda>thumbOpen.
            bindE (isFingerExtended landmarks 8 6) (\<lambda>indexOpen.
            bindE (isFingerExtended landmarks 12 10) (\<lambda>middleOpen.
            bindE (isFingerExtended landmarks 16 14) (\<lambda>ringOpen.
            bindE (isFingerExtended landmarks 20 18) (\<lambda>pinkyOpen.
              let openCount =
                    length (filter (\<lambda>b. b) [thumbOpen, indexOpen, middleOpen, ringOpen, pinkyOpen])
              in
                if openCount = 5 then Inr ''5''
                else if indexOpen \<and> \<not> middleOpen \<and> \<not> ringOpen \<and> \<not> pinkyOpen then Inr ''1''
                else if indexOpen \<and> middleOpen \<and> \<not> ringOpen \<and> \<not> pinkyOpen then Inr ''2''
                else if openCount \<le> 1 \<and> \<not> indexOpen then Inr ''fist''
                else Inr ''unknown''))))))"

subsection \<open>The classification procedure as the specification words it\<close>

datatype GestureLabel = one | two | five | fist | unknown

text \<open>The code's string for each label of the specification.\<close>

fun labelString :: "GestureLabel \<Rightarrow> string" where
  "labelString one = ''1''"
| "labelString two = ''2''"
| "labelString five = ''5''"
| "labelString fist = ''fist''"
| "labelString unknown = ''unknown''"

definition spec_extended :: "HandLandmark list \<Rightarrow> nat \<Rightarrow> nat \<Rightarrow> bool" where
  "spec_extended hand tip pivot = (distance (hand ! 0) (hand ! tip) > distance (hand ! 0) (hand ! pivot))"

definition spec_classify :: "HandLandmark list \<Rightarrow> GestureLabel" where
  "spec_classify hand =
     (let thumbE = spec_extended hand 4 2;
          indexE = spec_extended hand 8 6;
          middleE = spec_extended hand 12 10;
          ringE = spec_extended hand 16 14;
          pinkyE = spec_extended hand 20 18;
          openCount = (if thumbE then 1 else 0) + (if indexE then 1 else 0)
                    + (if middleE then 1 else 0) + (if ringE then 1 else 0)
                    + (if pinkyE then (1::nat) else 0)
      in if openCount = 5 then five
         else if indexE \<and> \<not> middleE \<and> \<not> ringE \<and> \<not> pinkyE then one
         else if indexE \<and> middleE \<and> \<not> ringE \<and> \<not> pinkyE then two
         else if openCount \<le> 1 \<and> \<not> indexE then fist
         else unknown)"

subsection \<open>Concrete hands\<close>

text \<open>
  A hand of 21 landmarks on the x axis: the wrist at 0, every joint at 1, and the tips of
  the fingers listed in \<open>tips\<close> at 2 (extended); the other tips stay at 1 (retracted).
\<close>

definition mkHand :: "nat list \<Rightarrow> HandLandmark list" where
  "mkHand tips =
     map (\<lambda>i. \<lparr>lx = (if i = 0 then 0 else if i \<in> set tips then 2 else 1), ly = 0, lz = 0\<rparr>)
       [0..<21]"

definition handFive :: "HandLandmark list" where
  "handFive = mkHand [4, 8, 12, 16, 20]"

definition handOne :: "HandLandmark list" where
  "handOne = mkHand [8]"

definition handTwo :: "HandLandmark list" where
  "handTwo = mkHand [8, 12]"

definition handFist :: "HandLandmark list" where
  "handFist = mkHand []"

text \<open>A malformed hand: a single landmark.\<close>

definition shortHand :: "HandLandmark list" where
  "shortHand = [\<lparr>lx = 0, ly = 0, lz = 0\<rparr>]"

section \<open>Non-finite numbers\<close>

text \<open>
  A JavaScript number that may be infinite or NaN: the result of a division whose
  divisor can be zero, and of the arithmetic that follows it. Finite values are reals.
\<close>

datatype jsnum = Fin real | PosInfinity | NegInfinity | NaN

text \<open>
  \<open>a / b\<close> for finite \<open>a\<close> and \<open>b\<close>. A zero divisor here is the result of
  \<open>Math.sqrt\<close>, a positive zero: a positive dividend gives Infinity, zero gives NaN.
\<close>

definition js_div :: "real \<Rightarrow> real \<Rightarrow> jsnum" where
  "js_div a b =
     (if b \<noteq> 0 then Fin (a / b)
      else if a = 0 then NaN
      else if 0 < a then PosInfinity else NegInfinity)"

text \<open>\<open>v + c\<close>, \<open>v * c\<close> and \<open>v / c\<close> for a finite constant \<open>c\<close>.\<close>

fun js_plus :: "jsnum \<Rightarrow> real \<Rightarrow> jsnum" where
  "js_plus (Fin a) c = Fin (a + c)"
| "js_plus PosInfinity c = PosInfinity"
| "js_plus NegInfinity c = NegInfinity"
| "js_plus NaN c = NaN"

fun js_times :: "jsnum \<Rightarrow> real \<Rightarrow> jsnum" where
  "js_times (Fin a) c = Fin (a * c)"
| "js_times PosInfinity c = (if c = 0 then NaN else if 0 < c then PosInfinity else NegInfinity)"
| "js_times NegInfinity c = (if c = 0 then NaN else if 0 < c then NegInfinity else PosInfinity)"
| "js_times NaN c = NaN"

fun js_over :: "jsnum \<Rightarrow> real \<Rightarrow> jsnum" where
  "js_over (Fin a) c = js_div a c"
| "js_over PosInfinity c = (if 0 \<le> c then PosInfinity else NegInfinity)"
| "js_over NegInfinity c = (if 0 \<le> c then NegInfinity else PosInfinity)"
| "js_over NaN c = NaN"

text \<open>\<open>Math.max(v, c)\<close> and \<open>Math.min(v, c)\<close>: NaN if an argument is NaN.\<close>

fun Math_max :: "jsnum \<Rightarrow> real \<Rightarrow> jsnum" where
  "Math_max (Fin a) c = Fin (max a c)"
| "Math_max PosInfinity c = PosInfinity"
| "Math_max NegInfinity c = Fin c"
| "Math_max NaN c = NaN"

fun Math_min :: "jsnum \<Rightarrow> real \<Rightarrow> jsnum" where
  "Math_min (Fin a) c = Fin (min a c)"
| "Math_min PosInfinity c = Fin c"
| "Math_min NegInfinity c = NegInfinity"
| "Math_min NaN c = NaN"

fun isFinite :: "jsnum \<Rightarrow> bool" where
  "isFinite (Fin a) = True"
| "isFinite PosInfinity = False"
| "isFinite NegInfinity = False"
| "isFinite NaN = False"

section \<open>Stores into a Float32Array\<close>

text \<open>
  A \<open>Float32Array\<close> holds binary32 numbers: a store rounds to the nearest one, ties to
  the even significand. For \<open>x\<close> with \<open>2 ^ e \<le> |x| < 2 ^ (e + 1)\<close> the binary32
  numbers around \<open>x\<close> are the multiples of \<open>2 ^ (e - 23)\<close>; below \<open>2 ^ (- 126)\<close>
  (the subnormal range) they are the multiples of \<open>2 ^ (- 149)\<close>.
\<close>

definition expo :: "real \<Rightarrow> int" where
  "expo x = max \<lfloor>log 2 \<bar>x\<bar>\<rfloor> (- 126)"

definition ulp :: "real \<Rightarrow> real" where
  "ulp x = 2 powi (expo x - 23)"

definition roundEven :: "real \<Rightarrow> int" where
  "roundEven t =
     (let f = \<lfloor>t\<rfloor> in
      if t - of_int f < 1 / 2 then f
      else if t - of_int f > 1 / 2 then f + 1
      else if even f then f else f + 1)"

definition float32 :: "real \<Rightarrow> real" where
  "float32 x = (if x = 0 then 0 else sgn x * (of_int (roundEven (\<bar>x\<bar> / ulp x)) * ulp x))"

text \<open>
  The largest binary32 number is \<open>2 ^ 128 - 2 ^ 104\<close>: a value that rounds to
  \<open>2 ^ 128\<close> or beyond is stored as an infinity. \<open>fround\<close> is the stored value.
  The particle buffers of a frame hold real numbers: there a store is \<open>float32\<close>, and a
  position of magnitude \<open>2 ^ 128\<close> or more is outside the model, as NaN is.
\<close>

definition fround :: "real \<Rightarrow> jsnum" where
  "fround x =
     (if 2 ^ 128 \<le> float32 x then PosInfinity
      else if float32 x \<le> - (2 ^ 128) then NegInfinity
      else Fin (float32 x))"


section \<open>Hand analysis and mode selection (components/ParticleField.tsx, lines 82 to 185)\<close>

text \<open>
  A \<open>THREE.Color\<close> is its three components. The hex colours the code names are
  \<open>#FFFFFF\<close>, \<open>#FF0000\<close> and \<open>#00FFFF\<close>; the user's colour is the parsed
  \<open>new THREE.Color(userColor)\<close>.
\<close>

record Color =
  cr :: real
  cg :: real
  cb :: real

definition white :: Color where
  "white = \<lparr>cr = 1, cg = 1, cb = 1\<rparr>"

definition red :: Color where
  "red = \<lparr>cr = 1, cg = 0, cb = 0\<rparr>"

definition cyan :: Color where
  "cyan = \<lparr>cr = 0, cg = 1, cb = 1\<rparr>"

record Viewport =
  vwidth :: real
  vheight :: real

record WorldHand =
  wx :: real
  wy :: real
  rawX :: real
  gesture :: string

record InteractionPoint =
  px :: real
  py :: real

text \<open>The cache of glyph clouds, one flat buffer of coordinates per phrase key.\<close>

record TextGeometries =
  HELLO :: "real list"
  YUFU :: "real list"
  WITHME :: "real list"
  PHOTO :: "real list"

definition worldHand :: "Viewport \<Rightarrow> HandLandmark list \<Rightarrow> failure + WorldHand" where
  "worldHand viewport hand =
     bindE (elemAt hand 0) (\<lambda>h0.
     bindE (elemAt hand 5) (\<lambda>h5.
     bindE (elemAt hand 17) (\<lambda>h17.
       let cx = lx h0 + lx h5 + lx h17;
           cy = ly h0 + ly h5 + ly h17
       in bindE (detectGesture (Some hand)) (\<lambda>g.
            Inr \<lparr>wx = (0.5 - cx / 3) * vwidth viewport,
                 wy = (0.5 - cy / 3) * vheight viewport,
                 rawX = cx / 3,
                 gesture = g\<rparr>))))"

definition tipIndices :: "nat list" where
  "tipIndices = [4, 8, 12, 16, 20, 9]"

definition project :: "Viewport \<Rightarrow> HandLandmark \<Rightarrow> InteractionPoint" where
  "project viewport p = \<lparr>px = (0.5 - lx p) * vwidth viewport, py = (0.5 - ly p) * vheight viewport\<rparr>"

definition handPoints :: "Viewport \<Rightarrow> HandLandmark list \<Rightarrow> failure + InteractionPoint list" where
  "handPoints viewport hand =
     mapE (\<lambda>idx. bindE (elemAt hand idx) (\<lambda>p. Inr (project viewport p))) tipIndices"

definition interactionPoints :: "Viewport \<Rightarrow> HandLandmark list list \<Rightarrow> failure + InteractionPoint list" where
  "interactionPoints viewport hands =
     bindE (mapE (handPoints viewport) hands) (\<lambda>pss. Inr (concat pss))"

record Resolved =
  activeTextTarget :: "real list option"
  targetColor :: Color
  interactionMode :: AppState
  rotationSpeed :: jsnum
  diffusion :: jsnum

definition defaults :: "Color \<Rightarrow> Resolved" where
  "defaults userColor =
     \<lparr>activeTextTarget = None, targetColor = userColor, interactionMode = IDLE,
      rotationSpeed = Fin 0.2, diffusion = Fin 1\<rparr>"

text \<open>
  The branch for one hand that is not in text mode: the openness ratio and what is
  derived from it (lines 140 to 149).
\<close>

definition openness :: "HandLandmark list \<Rightarrow> failure + jsnum" where
  "openness l =
     bindE (elemAt l 0) (\<lambda>l0.
     bindE (elemAt l 5) (\<lambda>l5.
     bindE (elemAt l 4) (\<lambda>l4.
     bindE (elemAt l 20) (\<lambda>l20.
       let palmSize = sqrt ((lx l0 - lx l5)\<^sup>2 + (ly l0 - ly l5)\<^sup>2);
           spread = sqrt ((lx l4 - lx l20)\<^sup>2 + (ly l4 - ly l20)\<^sup>2);
           ratio = js_div spread palmSize
       in Inr (Math_min (Math_max (js_over (js_plus ratio (- 1)) 2) 0) 1)))))"

definition resolve ::
  "TextGeometries \<Rightarrow> Color \<Rightarrow> HandLandmark list list \<Rightarrow> WorldHand list \<Rightarrow> failure + Resolved" where
  "resolve textGeometries userColor hands worldHands =
     (let handCount = length hands;
          d = defaults userColor
      in
      if handCount > 0 then
        if handCount = 1 then
          bindE (elemAt worldHands 0) (\<lambda>h.
            let r1 = (if gesture h = ''5''
                      then d\<lparr>activeTextTarget := Some (HELLO textGeometries),
                             interactionMode := TEXT_MODE\<rparr>
                      else d)
            in
            if interactionMode r1 \<noteq> TEXT_MODE then
              bindE (elemAt hands 0) (\<lambda>l.
              bindE (openness l) (\<lambda>normalizedOpen.
                Inr (r1\<lparr>interactionMode := INTERACTIVE,
                         diffusion := js_plus (js_times normalizedOpen 3) 1,
                         rotationSpeed := js_plus (js_times normalizedOpen 2) 0.2\<rparr>)))
            else Inr r1)
        else if handCount = 2 then
          bindE (elemAt worldHands 0) (\<lambda>w0.
          bindE (elemAt worldHands 1) (\<lambda>w1.
            let g1 = gesture w0; g2 = gesture w1 in
            if g1 = ''1'' \<and> g2 = ''1'' then
              Inr (d\<lparr>activeTextTarget := Some (YUFU textGeometries), interactionMode := TEXT_MODE\<rparr>)
            else if g1 = ''2'' \<and> g2 = ''2'' then
              Inr (d\<lparr>activeTextTarget := Some (WITHME textGeometries), interactionMode := TEXT_MODE\<rparr>)
            else if g1 = ''5'' \<and> g2 = ''5'' then
              Inr (d\<lparr>activeTextTarget := Some (PHOTO textGeometries), interactionMode := TEXT_MODE\<rparr>)
            else
              let avgDist = (\<bar>wx w0\<bar> + \<bar>wy w0\<bar> + \<bar>wx w1\<bar> + \<bar>wy w1\<bar>) / 4 in
              Inr (d\<lparr>interactionMode := INTERACTIVE,
                      targetColor := (if avgDist < 3.5 then white
                                      else if avgDist < 8 then red else cyan)\<rparr>)))
        else Inr d
      else Inr (d\<lparr>targetColor := cyan\<rparr>))"

text \<open>
  Lines 82 to 185 together: the hands of the observation (none when \<open>handData\<close> is
  null), their projections and gestures, the interaction points, and the resolved mode.
\<close>

definition handsOf :: "HandLandmark list list option \<Rightarrow> HandLandmark list list" where
  "handsOf handData = (case handData of None \<Rightarrow> [] | Some hs \<Rightarrow> hs)"

definition analyse ::
  "Viewport \<Rightarrow> TextGeometries \<Rightarrow> Color \<Rightarrow> HandLandmark list list option
     \<Rightarrow> failure + (WorldHand list \<times> InteractionPoint list \<times> Resolved)" where
  "analyse viewport textGeometries userColor handData =
     (let hands = handsOf handData in
      bindE (mapE (worldHand viewport) hands) (\<lambda>worldHands.
      bindE (interactionPoints viewport hands) (\<lambda>points.
      bindE (resolve textGeometries userColor hands worldHands) (\<lambda>res.
        Inr (worldHands, points, res)))))"

section \<open>Particle integrator (components/ParticleField.tsx, lines 195 to 323)\<close>

definition COUNT :: nat where
  "COUNT = 8000"

text \<open>
  A glyph cloud and the particle buffers are flat: the coordinates of point \<open>k\<close> are
  the elements \<open>3k\<close>, \<open>3k + 1\<close>, \<open>3k + 2\<close>. The index \<open>i % (length / 3)\<close> of the
  code is \<open>i mod (length div 3)\<close> for a buffer of whole triples, the only buffers
  \<open>generateTextParticles\<close> builds.
\<close>

definition textTarget :: "real list \<Rightarrow> nat \<Rightarrow> real \<times> real \<times> real" where
  "textTarget a i =
     (let textIdx = (i mod (length a div 3)) * 3;
          spread = 0.04
      in (a ! textIdx + sin (real i * 0.5) * spread,
          a ! (textIdx + 1) + cos (real i * 0.9) * spread,
          a ! (textIdx + 2) + sin (real i * 1.2) * spread))"

text \<open>
  The sphere (ambient) target. \<open>home\<close> is \<open>particles.target\<close>, \<open>t\<close> the elapsed
  time \<open>timeRef.current\<close>, and \<open>rnd k\<close> the value of the \<open>k\<close>-th call of
  \<open>Math.random\<close> in this frame: a holding frame makes three calls per particle.
\<close>

definition sphereTarget ::
  "real list \<Rightarrow> real \<Rightarrow> real \<Rightarrow> bool \<Rightarrow> (nat \<Rightarrow> real) \<Rightarrow> nat \<Rightarrow> real \<times> real \<times> real" where
  "sphereTarget home dif t isHolding rnd i =
     (let ix = i * 3; iy = i * 3 + 1; iz = i * 3 + 2;
          baseTx = home ! ix * dif;
          baseTy = home ! iy * dif;
          baseTz = home ! iz * dif;
          noiseX = sin (t * 2 + real i * 0.1) * 0.2;
          noiseY = cos (t * 2 + real i * 0.1) * 0.2;
          noiseZ = 0;
          morphSpeed = 8;
          morphAmp = 2
      in if isHolding then
           (baseTx + (noiseX + sin (t * morphSpeed + real iy * 0.1) * morphAmp + (rnd (3 * i) - 0.5) * 1.5),
            baseTy + (noiseY + cos (t * morphSpeed + real ix * 0.1) * morphAmp + (rnd (3 * i + 1) - 0.5) * 1.5),
            baseTz + (noiseZ + sin (t * morphSpeed + real iz * 0.1) * morphAmp + (rnd (3 * i + 2) - 0.5) * 1.5))
         else (baseTx + noiseX, baseTy + noiseY, baseTz + noiseZ))"

text \<open>The target before the forces (lines 218 to 259).\<close>

definition targetPosition ::
  "AppState \<Rightarrow> real list option \<Rightarrow> real list \<Rightarrow> real \<Rightarrow> real \<Rightarrow> bool \<Rightarrow> (nat \<Rightarrow> real) \<Rightarrow> nat
     \<Rightarrow> real \<times> real \<times> real" where
  "targetPosition mode active home dif t isHolding rnd i =
     (case active of
        None \<Rightarrow> sphereTarget home dif t isHolding rnd i
      | Some a \<Rightarrow>
          if mode = TEXT_MODE \<and> length a > 0 then textTarget a i
          else sphereTarget home dif t isHolding rnd i)"

definition radiusOf :: "AppState \<Rightarrow> bool \<Rightarrow> real" where
  "radiusOf mode isHolding = (if mode = TEXT_MODE then 1.5 else if isHolding then 8 else 3.5)"

definition forceMultiOf :: "AppState \<Rightarrow> bool \<Rightarrow> real" where
  "forceMultiOf mode isHolding = (if mode = TEXT_MODE then 8 else if isHolding then 15 else 3)"

text \<open>One pass of the loop over the interaction points (lines 265 to 293).\<close>

definition repel ::
  "AppState \<Rightarrow> bool \<Rightarrow> real \<times> real \<times> real \<Rightarrow> real \<times> real \<times> real \<Rightarrow> InteractionPoint
     \<Rightarrow> real \<times> real \<times> real" where
  "repel mode isHolding pos tgt point =
     (case pos of (posx, posy, posz) \<Rightarrow>
      case tgt of (tx, ty, tz) \<Rightarrow>
        let dx = posx - px point;
            dy = posy - py point;
            dz = posz - 0;
            distSq = dx * dx + dy * dy + dz * dz;
            radius = radiusOf mode isHolding;
            forceMulti = forceMultiOf mode isHolding;
            radiusSq = radius * radius
        in if distSq < radiusSq then
             let force = 1 - distSq / radiusSq
             in (tx + dx * force * forceMulti, ty + dy * force * forceMulti, tz + dz * force * forceMulti)
           else (tx, ty, tz))"

text \<open>The global flee of a holding frame (lines 297 to 310); \<open>x || 0.1\<close> is 0.1 when \<open>x\<close> is 0.\<close>

definition flee :: "real \<times> real \<Rightarrow> real \<Rightarrow> real \<times> real \<times> real \<Rightarrow> real \<times> real \<times> real \<Rightarrow> real \<times> real \<times> real" where
  "flee handCenter t pos tgt =
     (case pos of (posx, posy, posz) \<Rightarrow>
      case tgt of (tx, ty, tz) \<Rightarrow>
        let dx = posx - fst handCenter;
            dy = posy - snd handCenter;
            s = sqrt (dx * dx + dy * dy);
            dist = (if s = 0 then 0.1 else s);
            spiralX = - dy;
            spiralY = dx
        in (tx + (dx / dist) * 8 + (spiralX / dist) * 4 * sin (t * 5),
            ty + (dy / dist) * 8 + (spiralY / dist) * 4 * sin (t * 5),
            tz))"

definition applyForces ::
  "AppState \<Rightarrow> bool \<Rightarrow> InteractionPoint list \<Rightarrow> real \<times> real \<Rightarrow> real \<Rightarrow> real \<times> real \<times> real
     \<Rightarrow> real \<times> real \<times> real \<Rightarrow> real \<times> real \<times> real" where
  "applyForces mode isHolding points handCenter t pos tgt =
     (if length points > 0 then
        let tgt1 = foldl (repel mode isHolding pos) tgt points
        in if isHolding then flee handCenter t pos tgt1 else tgt1
      else tgt)"

definition holding :: "Resolved \<Rightarrow> bool" where
  "holding res =
     (interactionMode res = INTERACTIVE \<and> cr (targetColor res) > 0.95
      \<and> cg (targetColor res) > 0.95 \<and> cb (targetColor res) > 0.95)"

definition handCenterOf :: "WorldHand list \<Rightarrow> real \<times> real" where
  "handCenterOf worldHands =
     (if length worldHands > 0
      then (sum_list (map wx worldHands) / real (length worldHands),
            sum_list (map wy worldHands) / real (length worldHands))
      else (0, 0))"

definition lerpColor :: "Color \<Rightarrow> Color \<Rightarrow> real \<Rightarrow> Color" where
  "lerpColor c target alpha =
     \<lparr>cr = cr c + (cr target - cr c) * alpha,
      cg = cg c + (cg target - cg c) * alpha,
      cb = cb c + (cb target - cb c) * alpha\<rparr>"

definition positionOf :: "real list \<Rightarrow> nat \<Rightarrow> real \<times> real \<times> real" where
  "positionOf positions i = (positions ! (i * 3), positions ! (i * 3 + 1), positions ! (i * 3 + 2))"

text \<open>
  The force-adjusted target of particle \<open>i\<close>, and its position after the frame: the
  three numbers stored into \<open>positions\<close>, a \<open>Float32Array\<close>.
\<close>

definition forcedTarget ::
  "Resolved \<Rightarrow> real \<Rightarrow> WorldHand list \<Rightarrow> InteractionPoint list \<Rightarrow> real list \<Rightarrow> real \<Rightarrow> (nat \<Rightarrow> real)
     \<Rightarrow> real list \<Rightarrow> nat \<Rightarrow> real \<times> real \<times> real" where
  "forcedTarget res d worldHands points home t rnd positions i =
     applyForces (interactionMode res) (holding res) points (handCenterOf worldHands) t
       (positionOf positions i)
       (targetPosition (interactionMode res) (activeTextTarget res) home d t (holding res) rnd i)"

definition particleStep ::
  "Resolved \<Rightarrow> real \<Rightarrow> WorldHand list \<Rightarrow> InteractionPoint list \<Rightarrow> real list \<Rightarrow> real \<Rightarrow> (nat \<Rightarrow> real)
     \<Rightarrow> real list \<Rightarrow> nat \<Rightarrow> real list" where
  "particleStep res d worldHands points home t rnd positions i =
     (case positionOf positions i of (posx, posy, posz) \<Rightarrow>
      case forcedTarget res d worldHands points home t rnd positions i of (tx, ty, tz) \<Rightarrow>
        let speed = (if holding res then 0.15 else 0.1)
        in [float32 (posx + (tx - posx) * speed),
            float32 (posy + (ty - posy) * speed),
            float32 (posz + (tz - posz) * speed)])"

text \<open>
  The state a frame reads and writes, and what it is given. \<open>mounted\<close> is false when
  \<open>mesh.current\<close> or \<open>groupRef.current\<close> is null: the frame then returns at once.
  The rotation of the group is written to the scene graph and read by nothing below;
  it is left out. The buffers are \<open>Float32Array\<close>s of \<open>COUNT * 3\<close> numbers, as they are
  allocated.
\<close>

record Frame =
  positions :: "real list"
  colors :: "real list"
  currentColor :: Color
  timeRef :: real

record FrameInput =
  mounted :: bool
  handData :: "HandLandmark list list option"
  userColor :: Color
  viewport :: Viewport
  textGeometries :: TextGeometries
  particlesTarget :: "real list"
  delta :: real
  mathRandom :: "nat \<Rightarrow> real"

definition useFrame :: "FrameInput \<Rightarrow> Frame \<Rightarrow> failure + Frame" where
  "useFrame inp st =
     (if \<not> mounted inp then Inr st
      else
        let t = timeRef st + delta inp in
        bindE (analyse (viewport inp) (textGeometries inp) (userColor inp) (handData inp))
          (\<lambda>(worldHands, points, res).
             case diffusion res of
               Fin d \<Rightarrow>
                 let c = lerpColor (currentColor st) (targetColor res) 0.1
                 in Inr \<lparr>positions =
                           concat (map (particleStep res d worldHands points (particlesTarget inp) t (mathRandom inp)
                                          (positions st)) [0..<COUNT]),
                         colors = concat (replicate COUNT [float32 (cr c), float32 (cg c), float32 (cb c)]),
                         currentColor = c,
                         timeRef = t\<rparr>
             | _ \<Rightarrow> Inl NaNPositions))"

section \<open>Glyph point-cloud generator (utils/gestureUtils.ts, lines 50 to 95)\<close>

text \<open>
  The canvas is the browser's: \<open>None\<close> when \<open>getContext\<close> returns null, otherwise the
  function from the text and the size to the RGBA bytes \<open>getImageData\<close> returns.
  A read past the end of the bytes is \<open>undefined\<close>, which is not greater than 128.
  The width, the height and the density are integers, as at the call sites (1024, 512
  and the default density 6).
\<close>

definition bright :: "nat list \<Rightarrow> int \<Rightarrow> bool" where
  "bright data index = (0 \<le> index \<and> nat index < length data \<and> data ! nat index > 128)"

definition jitter :: "real \<Rightarrow> int \<Rightarrow> real" where
  "jitter r density = (r - 0.5) * real_of_int density * 0.3"

text \<open>
  The body of the inner loop. The state is the number of calls of \<open>Math.random\<close> made
  so far, and the positions pushed so far.
\<close>

definition samplePixel ::
  "nat list \<Rightarrow> (nat \<Rightarrow> real) \<Rightarrow> int \<Rightarrow> int \<Rightarrow> int \<Rightarrow> int \<Rightarrow> int \<Rightarrow> nat \<times> real list \<Rightarrow> nat \<times> real list" where
  "samplePixel data rnd width height density y x s =
     (case s of (k, ps) \<Rightarrow>
        let index = (y * width + x) * 4 in
        if bright data index then
          let jitterX = jitter (rnd k) density;
              jitterY = jitter (rnd (k + 1)) density;
              nX = ((real_of_int x + jitterX) / real_of_int width - 0.5) * 20;
              nY = - ((real_of_int y + jitterY) / real_of_int height - 0.5) * 20
                     * (real_of_int height / real_of_int width);
              nZ = (rnd (k + 2) - 0.5) * 0.2
          in (k + 3, ps @ [nX, nY, nZ])
        else (k, ps))"

text \<open>
  The two loops. With a density that is not positive they do not end; the result is
  then \<open>None\<close>. The generator returns \<open>new Float32Array(positions)\<close>: every pushed
  number as it is stored.
\<close>

partial_function (option) scanRow ::
  "nat list \<Rightarrow> (nat \<Rightarrow> real) \<Rightarrow> int \<Rightarrow> int \<Rightarrow> int \<Rightarrow> int \<Rightarrow> int \<Rightarrow> nat \<times> real list \<Rightarrow> (nat \<times> real list) option" where
  "scanRow data rnd width height density y x s =
     (if x < width
      then scanRow data rnd width height density y (x + density)
             (samplePixel data rnd width height density y x s)
      else Some s)"

partial_function (option) scanRows ::
  "nat list \<Rightarrow> (nat \<Rightarrow> real) \<Rightarrow> int \<Rightarrow> int \<Rightarrow> int \<Rightarrow> int \<Rightarrow> nat \<times> real list \<Rightarrow> (nat \<times> real list) option" where
  "scanRows data rnd width height density y s =
     (if y < height
      then Option.bind (scanRow data rnd width height density y 0 s)
             (\<lambda>s'. scanRows data rnd width height density (y + density) s')
      else Some s)"

definition generateTextParticles ::
  "(string \<Rightarrow> int \<Rightarrow> int \<Rightarrow> nat list) option \<Rightarrow> (nat \<Rightarrow> real) \<Rightarrow> string \<Rightarrow> int \<Rightarrow> int \<Rightarrow> int
     \<Rightarrow> jsnum list option" where
  "generateTextParticles canvas rnd text width height density =
     (case canvas of
        None \<Rightarrow> Some []
      | Some raster \<Rightarrow>
          map_option (\<lambda>s. map fround (snd s))
            (scanRows (raster text width height) rnd width height density 0 (0, [])))"


section \<open>Derived definitions and concrete inputs\<close>

text \<open>The projection of a hand of at least 21 landmarks: what \<open>worldHand\<close> returns for it.\<close>

definition worldHandOf :: "Viewport \<Rightarrow> HandLandmark list \<Rightarrow> WorldHand" where
  "worldHandOf vp hand =
     \<lparr>wx = (0.5 - (lx (hand ! 0) + lx (hand ! 5) + lx (hand ! 17)) / 3) * vwidth vp,
      wy = (0.5 - (ly (hand ! 0) + ly (hand ! 5) + ly (hand ! 17)) / 3) * vheight vp,
      rawX = (lx (hand ! 0) + lx (hand ! 5) + lx (hand ! 17)) / 3,
      gesture = labelString (spec_classify hand)\<rparr>"

text \<open>The resolved mode alone.\<close>

definition resolved ::
  "Viewport \<Rightarrow> TextGeometries \<Rightarrow> Color \<Rightarrow> HandLandmark list list option \<Rightarrow> failure + Resolved" where
  "resolved vp tg uc observation = bindE (analyse vp tg uc observation) (\<lambda>(wh, pts, res). Inr res)"

text \<open>A viewport, a cache of four one-point clouds, a hand whose landmarks coincide, a landmark.\<close>

definition vp0 :: Viewport where
  "vp0 = \<lparr>vwidth = 16, vheight = 9\<rparr>"

definition tg0 :: TextGeometries where
  "tg0 = \<lparr>HELLO = [1, 0, 0], YUFU = [2, 0, 0], WITHME = [3, 0, 0], PHOTO = [4, 0, 0]\<rparr>"

definition pointHand :: "HandLandmark list" where
  "pointHand = replicate 21 \<lparr>lx = 0.5, ly = 0.5, lz = 0\<rparr>"

definition lm0 :: HandLandmark where
  "lm0 = \<lparr>lx = 0, ly = 0, lz = 0\<rparr>"

text \<open>A mounted frame input and a frame state with buffers of \<open>COUNT * 3\<close> numbers.\<close>

definition inp0 :: "HandLandmark list list option \<Rightarrow> TextGeometries \<Rightarrow> FrameInput" where
  "inp0 observation tg =
     \<lparr>mounted = True, handData = observation, userColor = cyan, viewport = vp0,
      textGeometries = tg, particlesTarget = replicate (COUNT * 3) 5, delta = 1 / 60,
      mathRandom = (\<lambda>k. 0)\<rparr>"

definition frame0 :: Frame where
  "frame0 = \<lparr>positions = replicate (COUNT * 3) 1, colors = replicate (COUNT * 3) 1,
             currentColor = cyan, timeRef = 0\<rparr>"




text \<open>
  Vectors: the sum of two triples and of a list of triples. \<open>push\<close> is the repulsion of
  one interaction point on a particle at \<open>pos\<close>, written out: nothing at a squared
  distance of the squared radius or more, otherwise the offset from the point scaled by
  \<open>1 - distSq / radiusSq\<close> and by the multiplier; radius and multiplier are 1.5 and 8 in
  text mode, 8 and 15 in a holding frame, 3.5 and 3 otherwise.
\<close>

definition addV :: "real \<times> real \<times> real \<Rightarrow> real \<times> real \<times> real \<Rightarrow> real \<times> real \<times> real" where
  "addV u v = (fst u + fst v, fst (snd u) + fst (snd v), snd (snd u) + snd (snd v))"

fun sumV :: "(real \<times> real \<times> real) list \<Rightarrow> real \<times> real \<times> real" where
  "sumV [] = (0, 0, 0)"
| "sumV (v # vs) = addV v (sumV vs)"

definition push :: "AppState \<Rightarrow> bool \<Rightarrow> real \<times> real \<times> real \<Rightarrow> InteractionPoint \<Rightarrow> real \<times> real \<times> real" where
  "push mode isHolding pos point =
     (let dx = fst pos - px point;
          dy = fst (snd pos) - py point;
          dz = snd (snd pos);
          distSq = dx * dx + dy * dy + dz * dz;
          radius = (if mode = TEXT_MODE then 3 / 2 else if isHolding then 8 else 7 / 2);
          multiplier = (if mode = TEXT_MODE then 8 else if isHolding then 15 else 3)
      in if distSq < radius * radius
         then (dx * (1 - distSq / (radius * radius)) * multiplier,
               dy * (1 - distSq / (radius * radius)) * multiplier,
               dz * (1 - distSq / (radius * radius)) * multiplier)
         else (0, 0, 0))"

text \<open>
  A frame state whose particle 0 is at (-23, 4.5, 0), one unit from the fingertips of
  \<open>handFive\<close> as \<open>vp0\<close> projects them.
\<close>

definition frameNear :: Frame where
  "frameNear = \<lparr>positions = [- 23, 9 / 2, 0] @ replicate (COUNT * 3 - 3) 1,
                 colors = replicate (COUNT * 3) 1, currentColor = cyan, timeRef = 0\<rparr>"

text \<open>A cache whose glyph clouds are all empty buffers.\<close>

definition tgEmpty :: TextGeometries where
  "tgEmpty = \<lparr>HELLO = [], YUFU = [], WITHME = [], PHOTO = []\<rparr>"

section \<open>Properties of the classifier\<close>

lemma elemAt_in_range: "i < length xs \<Longrightarrow> elemAt xs i = Inr (xs ! i)"
  by (simp add: elemAt_def)

lemma elemAt_out_of_range: "length xs \<le> i \<Longrightarrow> elemAt xs i = Inl TypeError"
  by (simp add: elemAt_def)

lemma bindE_Inr: "bindE (Inr v) f = f v"
  by (simp add: bindE_def)

lemma bindE_Inl: "bindE (Inl e) f = Inl e"
  by (simp add: bindE_def)

lemma isFingerExtended_ok:
  assumes "0 < length h" "t < length h" "p < length h"
  shows "isFingerExtended h t p = Inr (distance (h ! 0) (h ! t) > distance (h ! 0) (h ! p))"
  using assms by (simp add: isFingerExtended_def elemAt_in_range bindE_Inr)

lemma isFingerExtended_short:
  assumes "length h \<le> t"
  shows "isFingerExtended h t p = Inl TypeError"
  using assms by (simp add: isFingerExtended_def elemAt_def bindE_def)

lemma mkHand_length: "length (mkHand tips) = 21"
  by (simp add: mkHand_def)

lemma mkHand_nth:
  "i < 21 \<Longrightarrow> mkHand tips ! i = \<lparr>lx = (if i = 0 then 0 else if i \<in> set tips then 2 else 1), ly = 0, lz = 0\<rparr>"
  by (simp add: mkHand_def)

lemma isInr_bindE: "bindE m f = Inr r \<longleftrightarrow> (\<exists>v. m = Inr v \<and> f v = Inr r)"
  by (cases m) (simp_all add: bindE_def)

lemma mapE_all_ok:
  assumes "\<And>a. a \<in> set as \<Longrightarrow> f a = Inr (g a)"
  shows "mapE f as = Inr (map g as)"
  using assms by (induction as) (simp_all add: bindE_Inr)

lemma mapE_length: "mapE f as = Inr bs \<Longrightarrow> length bs = length as"
  by (induction as arbitrary: bs) (auto simp: isInr_bindE)

lemma detectGesture_long:
  assumes "21 \<le> length hand"
  shows "detectGesture (Some hand) = Inr (labelString (spec_classify hand))"
proof -
  have ne: "0 < length hand" using assms by (cases hand) simp_all
  have ext: "\<And>t p. t < 21 \<Longrightarrow> p < 21 \<Longrightarrow>
      isFingerExtended hand t p = Inr (spec_extended hand t p)"
    using assms ne by (simp add: isFingerExtended_ok spec_extended_def del: length_greater_0_conv)
  have "length hand \<noteq> 0" using assms by auto
  then show ?thesis
    by (simp add: detectGesture_def ext bindE_Inr spec_classify_def Let_def)
qed

lemma spec_classify_take:
  assumes "21 \<le> length hand"
  shows "spec_classify (take 21 hand) = spec_classify hand"
  by (simp add: spec_classify_def spec_extended_def)

lemma isFingerExtended_failure:
  "isFingerExtended h t p = Inl e \<Longrightarrow> e = TypeError"
  by (auto simp: isFingerExtended_def elemAt_def bindE_def split: if_splits)

lemma detectGesture_short:
  assumes "0 < length hand" "length hand < 21"
  shows "detectGesture (Some hand) = Inl TypeError"
proof -
  have p: "isFingerExtended hand 20 18 = Inl TypeError"
    using assms by (simp add: isFingerExtended_short)
  show ?thesis using assms
    by (auto simp: detectGesture_def p bindE_def split: sum.splits dest: isFingerExtended_failure)
qed

lemma classify_fixtures:
  "spec_classify handFive = five" "spec_classify handOne = one"
  "spec_classify handTwo = two" "spec_classify handFist = fist"
  by (simp_all add: spec_classify_def spec_extended_def handFive_def handOne_def handTwo_def
        handFist_def mkHand_nth distance_def Let_def)

lemma fixtures_length:
  "length handFive = 21" "length handOne = 21" "length handTwo = 21" "length handFist = 21"
  "length pointHand = 21"
  by (simp_all add: handFive_def handOne_def handTwo_def handFist_def mkHand_length pointHand_def)

text \<open>
  C1. For every hand of exactly 21 landmarks the classifier returns the label of the
  specification's procedure: a finger is extended iff its tip is farther from the wrist
  than its pivot joint (index 2 for the thumb, 6/10/14/18 for the other fingers), and the
  rules five, one, two, fist, unknown are tried in this order.
\<close>

theorem C1_detectGesture_is_spec_classify:
  assumes "length hand = 21"
  shows "detectGesture (Some hand) = Inr (labelString (spec_classify hand))"
  using assms by (simp add: detectGesture_long)

theorem C1_witness:
  "length handTwo = 21 \<and> detectGesture (Some handTwo) = Inr ''2''
   \<and> labelString (spec_classify handTwo) = ''2''"
  using C1_detectGesture_is_spec_classify [of handTwo]
  by (simp add: fixtures_length classify_fixtures)

section \<open>Properties of the mode selection\<close>

lemma worldHand_long:
  assumes "21 \<le> length hand"
  shows "worldHand vp hand = Inr (worldHandOf vp hand)"
proof -
  have "0 < length hand" "5 < length hand" "17 < length hand" using assms by (cases hand; simp)+
  then show ?thesis using assms
    by (simp add: worldHand_def elemAt_in_range bindE_Inr detectGesture_long worldHandOf_def Let_def
        del: length_greater_0_conv)
qed

lemma handPoints_long:
  assumes "21 \<le> length hand"
  shows "handPoints vp hand = Inr (map (\<lambda>idx. project vp (hand ! idx)) tipIndices)"
  unfolding handPoints_def
  by (rule mapE_all_ok) (use assms in \<open>auto simp: tipIndices_def elemAt_in_range bindE_Inr\<close>)

lemma interactionPoints_long:
  assumes "\<And>h. h \<in> set hands \<Longrightarrow> 21 \<le> length h"
  shows "interactionPoints vp hands =
           Inr (concat (map (\<lambda>hand. map (\<lambda>idx. project vp (hand ! idx)) tipIndices) hands))"
proof -
  have "mapE (handPoints vp) hands = Inr (map (\<lambda>hand. map (\<lambda>idx. project vp (hand ! idx)) tipIndices) hands)"
    by (rule mapE_all_ok) (simp add: handPoints_long assms)
  then show ?thesis by (simp add: interactionPoints_def bindE_Inr)
qed

lemma worldHands_long:
  assumes "\<And>h. h \<in> set hands \<Longrightarrow> 21 \<le> length h"
  shows "mapE (worldHand vp) hands = Inr (map (worldHandOf vp) hands)"
  by (rule mapE_all_ok) (simp add: worldHand_long assms)

lemma analyse_long:
  assumes "\<And>h. h \<in> set hands \<Longrightarrow> 21 \<le> length h"
  shows "analyse vp tg uc (Some hands) =
           bindE (resolve tg uc hands (map (worldHandOf vp) hands)) (\<lambda>res.
             Inr (map (worldHandOf vp) hands,
                  concat (map (\<lambda>hand. map (\<lambda>idx. project vp (hand ! idx)) tipIndices) hands),
                  res))"
  using assms
  by (simp add: analyse_def handsOf_def worldHands_long interactionPoints_long bindE_Inr)

lemma resolved_long:
  assumes "\<And>h. h \<in> set hands \<Longrightarrow> 21 \<le> length h"
  shows "resolved vp tg uc (Some hands) = resolve tg uc hands (map (worldHandOf vp) hands)"
  using assms
  by (simp add: resolved_def analyse_long bindE_def split: sum.splits)

lemma resolve_none: "resolve tg uc [] [] = Inr ((defaults uc)\<lparr>targetColor := cyan\<rparr>)"
  by (simp add: resolve_def)

lemma resolve_many:
  assumes "3 \<le> length hands"
  shows "resolve tg uc hands whs = Inr (defaults uc)"
proof -
  have "length hands > 0" "length hands \<noteq> 1" "length hands \<noteq> 2"
    using assms by auto
  then show ?thesis
    by (simp add: resolve_def Let_def del: length_greater_0_conv)
qed

lemma resolve_two:
  "resolve tg uc [h1, h2] [w0, w1] =
     (if gesture w0 = ''1'' \<and> gesture w1 = ''1'' then
        Inr ((defaults uc)\<lparr>activeTextTarget := Some (YUFU tg), interactionMode := TEXT_MODE\<rparr>)
      else if gesture w0 = ''2'' \<and> gesture w1 = ''2'' then
        Inr ((defaults uc)\<lparr>activeTextTarget := Some (WITHME tg), interactionMode := TEXT_MODE\<rparr>)
      else if gesture w0 = ''5'' \<and> gesture w1 = ''5'' then
        Inr ((defaults uc)\<lparr>activeTextTarget := Some (PHOTO tg), interactionMode := TEXT_MODE\<rparr>)
      else
        Inr ((defaults uc)\<lparr>interactionMode := INTERACTIVE,
               targetColor := (if (\<bar>wx w0\<bar> + \<bar>wy w0\<bar> + \<bar>wx w1\<bar> + \<bar>wy w1\<bar>) / 4 < 3.5 then white
                               else if (\<bar>wx w0\<bar> + \<bar>wy w0\<bar> + \<bar>wx w1\<bar> + \<bar>wy w1\<bar>) / 4 < 8 then red
                               else cyan)\<rparr>))"
  by (simp add: resolve_def elemAt_def bindE_def Let_def)

lemma gesture_worldHandOf: "gesture (worldHandOf vp h) = labelString (spec_classify h)"
  by (simp add: worldHandOf_def)

lemma labelString_eq:
  "labelString l = ''1'' \<longleftrightarrow> l = one"
  "labelString l = ''2'' \<longleftrightarrow> l = two"
  "labelString l = ''5'' \<longleftrightarrow> l = five"
  by (cases l; simp)+

lemma openness_long:
  assumes "21 \<le> length l"
  shows "openness l =
           Inr (Math_min (Math_max (js_over (js_plus
                  (js_div (sqrt ((lx (l ! 4) - lx (l ! 20))\<^sup>2 + (ly (l ! 4) - ly (l ! 20))\<^sup>2))
                          (sqrt ((lx (l ! 0) - lx (l ! 5))\<^sup>2 + (ly (l ! 0) - ly (l ! 5))\<^sup>2)))
                  (- 1)) 2) 0) 1)"
proof -
  have "0 < length l" "5 < length l" "4 < length l" "20 < length l"
    using assms by (cases l; simp)+
  then show ?thesis
    by (simp add: openness_def elemAt_in_range bindE_Inr Let_def del: length_greater_0_conv)
qed

lemma resolve_one:
  assumes "21 \<le> length h"
  shows "\<exists>res. resolve tg uc [h] [w] = Inr res \<and> targetColor res = uc
           \<and> interactionMode res = (if gesture w = ''5'' then TEXT_MODE else INTERACTIVE)
           \<and> activeTextTarget res = (if gesture w = ''5'' then Some (HELLO tg) else None)"
  by (simp add: resolve_def elemAt_def bindE_Inr openness_long [OF assms] defaults_def Let_def)

lemma resolve_ok:
  assumes "\<And>h. h \<in> set hands \<Longrightarrow> 21 \<le> length h"
  shows "\<exists>res. resolve tg uc hands (map (worldHandOf vp) hands) = Inr res"
proof -
  show ?thesis
  proof (cases hands)
    case Nil
    then show ?thesis by (simp add: resolve_none)
  next
    case c1: (Cons h t1)
    show ?thesis
    proof (cases t1)
      case Nil
      then show ?thesis
        using c1 resolve_one [of h tg uc "worldHandOf vp h"] assms by auto
    next
      case c2: (Cons h2 t2)
      show ?thesis
      proof (cases t2)
        case Nil
        then show ?thesis using c1 c2 by (simp add: resolve_two)
      next
        case (Cons h3 t3)
        then have "3 \<le> length hands" using c1 c2 by simp
        then show ?thesis by (simp add: resolve_many)
      qed
    qed
  qed
qed

lemma useFrame_no_TypeError:
  assumes "\<And>h. h \<in> set hands \<Longrightarrow> 21 \<le> length h" and "handData inp = Some hands"
  shows "useFrame inp st \<noteq> Inl TypeError"
proof -
  obtain res where "resolve (textGeometries inp) (userColor inp) hands
      (map (worldHandOf (viewport inp)) hands) = Inr res"
    using resolve_ok [of hands] assms(1) by blast
  then show ?thesis
    using assms
    by (cases "diffusion res") (simp_all add: useFrame_def analyse_long bindE_Inr Let_def)
qed

lemma resolved_none: "resolved vp tg uc None = Inr ((defaults uc)\<lparr>targetColor := cyan\<rparr>)"
  by (simp add: resolved_def analyse_def handsOf_def interactionPoints_def bindE_Inr resolve_none)

lemma resolved_no_hands: "resolved vp tg uc (Some []) = Inr ((defaults uc)\<lparr>targetColor := cyan\<rparr>)"
  using resolved_long [of "[]" vp tg uc] by (simp add: resolve_none)

text \<open>
  C2 fails as stated: a hand of one landmark makes the classifier, and the frame, raise a
  TypeError; and a hand of 22 landmarks is classified by its first 21 (here as '5'), not
  as 'unknown'.
\<close>

theorem C2_counterexample:
  "detectGesture (Some shortHand) = Inl TypeError
   \<and> useFrame (inp0 (Some [shortHand]) tg0) frame0 = Inl TypeError
   \<and> detectGesture (Some (handFive @ [lm0])) = Inr ''5''"
proof -
  have a: "detectGesture (Some shortHand) = Inl TypeError"
    by (rule detectGesture_short) (simp_all add: shortHand_def)
  have b: "useFrame (inp0 (Some [shortHand]) tg0) frame0 = Inl TypeError"
    by (simp add: useFrame_def inp0_def analyse_def handsOf_def worldHand_def shortHand_def
        elemAt_def bindE_def)
  have "spec_classify (handFive @ [lm0]) = spec_classify (take 21 (handFive @ [lm0]))"
    by (rule spec_classify_take [symmetric]) (simp add: fixtures_length)
  then have "spec_classify (handFive @ [lm0]) = five"
    by (simp add: fixtures_length classify_fixtures)
  then have c: "detectGesture (Some (handFive @ [lm0])) = Inr ''5''"
    by (simp add: detectGesture_long fixtures_length)
  from a b c show ?thesis by simp
qed

text \<open>
  C2, amended. The classifier returns 'unknown' without raising for a missing or an empty
  landmark list. For a list of 21 or more landmarks it completes without raising and
  returns the label of the first 21 landmarks. A frame whose hands all have at least 21
  landmarks raises no TypeError. Nothing is stated for lists of 1 to 20 landmarks.
\<close>

theorem C2_empty_or_long_hand:
  "detectGesture None = Inr ''unknown'' \<and> detectGesture (Some []) = Inr ''unknown''
   \<and> (21 \<le> length hand \<longrightarrow>
        detectGesture (Some hand) = detectGesture (Some (take 21 hand))
        \<and> (\<exists>l. detectGesture (Some hand) = Inr l))
   \<and> ((\<forall>h \<in> set hands. 21 \<le> length h) \<longrightarrow>
        useFrame (inp\<lparr>handData := Some hands\<rparr>) st \<noteq> Inl TypeError)"
proof -
  have a: "detectGesture None = Inr ''unknown''" "detectGesture (Some []) = Inr ''unknown''"
    by (simp_all add: detectGesture_def)
  have b: "detectGesture (Some hand) = detectGesture (Some (take 21 hand))
        \<and> (\<exists>l. detectGesture (Some hand) = Inr l)" if "21 \<le> length hand"
    using that by (simp add: detectGesture_long spec_classify_take)
  have c: "useFrame (inp\<lparr>handData := Some hands\<rparr>) st \<noteq> Inl TypeError"
    if "\<forall>h \<in> set hands. 21 \<le> length h"
    by (rule useFrame_no_TypeError [of hands]) (use that in simp_all)
  from a b c show ?thesis by blast
qed

theorem C2_witness:
  "21 \<le> length (handFive @ [lm0]) \<and> 21 \<le> length handFive
   \<and> detectGesture (Some (handFive @ [lm0])) = detectGesture (Some handFive)
   \<and> useFrame (inp0 (Some [handFive, handFive @ [lm0]]) tg0) frame0 \<noteq> Inl TypeError"
proof -
  have len: "21 \<le> length (handFive @ [lm0])"
    and all: "\<forall>h \<in> set [handFive, handFive @ [lm0]]. 21 \<le> length h"
    by (simp_all add: fixtures_length)
  have eq: "(inp0 None tg0)\<lparr>handData := Some [handFive, handFive @ [lm0]]\<rparr>
              = inp0 (Some [handFive, handFive @ [lm0]]) tg0"
    by (simp add: inp0_def)
  from C2_empty_or_long_hand [of "handFive @ [lm0]" "[handFive, handFive @ [lm0]]" "inp0 None tg0" frame0]
    len all eq
  show ?thesis by (simp add: fixtures_length)
qed

text \<open>
  C3. For two hands of 21 landmarks each: both classified '5' gives text mode with the
  PHOTO cloud, both '1' text mode with the YUFU cloud, both '2' text mode with the WITHME
  cloud; and text mode is entered only when both hands have the same label among '5', '1'
  and '2'.
\<close>

theorem C3_two_hands:
  assumes "length h1 = 21" and "length h2 = 21"
  shows "\<exists>res. resolved vp tg uc (Some [h1, h2]) = Inr res
     \<and> (detectGesture (Some h1) = Inr ''5'' \<and> detectGesture (Some h2) = Inr ''5''
          \<longrightarrow> interactionMode res = TEXT_MODE \<and> activeTextTarget res = Some (PHOTO tg))
     \<and> (detectGesture (Some h1) = Inr ''1'' \<and> detectGesture (Some h2) = Inr ''1''
          \<longrightarrow> interactionMode res = TEXT_MODE \<and> activeTextTarget res = Some (YUFU tg))
     \<and> (detectGesture (Some h1) = Inr ''2'' \<and> detectGesture (Some h2) = Inr ''2''
          \<longrightarrow> interactionMode res = TEXT_MODE \<and> activeTextTarget res = Some (WITHME tg))
     \<and> (interactionMode res = TEXT_MODE
          \<longrightarrow> (\<exists>g \<in> {''5'', ''1'', ''2''}.
                 detectGesture (Some h1) = Inr g \<and> detectGesture (Some h2) = Inr g))"
proof -
  have long: "\<And>h. h \<in> set [h1, h2] \<Longrightarrow> 21 \<le> length h"
    using assms by auto
  have g1: "detectGesture (Some h1) = Inr (labelString (spec_classify h1))"
    and g2: "detectGesture (Some h2) = Inr (labelString (spec_classify h2))"
    using assms by (simp_all add: detectGesture_long)
  have r: "resolved vp tg uc (Some [h1, h2]) =
             resolve tg uc [h1, h2] [worldHandOf vp h1, worldHandOf vp h2]"
    using resolved_long [of "[h1, h2]" vp tg uc] long by simp
  show ?thesis
    unfolding r g1 g2
    by (cases "spec_classify h1"; cases "spec_classify h2";
        simp add: resolve_two gesture_worldHandOf defaults_def)
qed

theorem C3_witness:
  "length handFive = 21 \<and>
   (\<exists>res. resolved vp0 tg0 cyan (Some [handFive, handFive]) = Inr res
      \<and> interactionMode res = TEXT_MODE \<and> activeTextTarget res = Some [4, 0, 0])
   \<and> detectGesture (Some handFive) = Inr ''5''"
proof -
  have g: "detectGesture (Some handFive) = Inr ''5''"
    by (simp add: detectGesture_long fixtures_length classify_fixtures)
  from C3_two_hands [OF fixtures_length(1) fixtures_length(1), of vp0 tg0 cyan] g
  show ?thesis
    by (auto simp: fixtures_length tg0_def)
qed

text \<open>
  C4 fails as stated: with the user's colour red and no hand, the mode is idle and the
  colour target is cyan, not red.
\<close>

theorem C4_counterexample:
  "resolved vp0 tg0 red (Some []) = Inr ((defaults red)\<lparr>targetColor := cyan\<rparr>)
   \<and> interactionMode ((defaults red)\<lparr>targetColor := cyan\<rparr>) = IDLE
   \<and> targetColor ((defaults red)\<lparr>targetColor := cyan\<rparr>) \<noteq> red"
  by (simp add: resolved_no_hands defaults_def cyan_def red_def)

text \<open>
  C4, amended. With no hand (a null observation or an empty one) the mode is idle and the
  colour target is the fixed cyan \<open>#00FFFF\<close>, whatever the user's colour. The user's
  colour is the colour target of every frame with exactly one hand of 21 landmarks.
\<close>

theorem C4_idle_colour_is_cyan:
  "resolved vp tg uc None = Inr ((defaults uc)\<lparr>targetColor := cyan\<rparr>)
   \<and> resolved vp tg uc (Some []) = Inr ((defaults uc)\<lparr>targetColor := cyan\<rparr>)
   \<and> interactionMode ((defaults uc)\<lparr>targetColor := cyan\<rparr>) = IDLE
   \<and> targetColor ((defaults uc)\<lparr>targetColor := cyan\<rparr>) = cyan
   \<and> (length h = 21 \<longrightarrow> (\<exists>res. resolved vp tg uc (Some [h]) = Inr res \<and> targetColor res = uc))"
proof -
  have "\<exists>res. resolved vp tg uc (Some [h]) = Inr res \<and> targetColor res = uc" if "length h = 21"
  proof -
    have "resolved vp tg uc (Some [h]) = resolve tg uc [h] [worldHandOf vp h]"
      using resolved_long [of "[h]" vp tg uc] that by simp
    then show ?thesis
      using resolve_one [of h tg uc "worldHandOf vp h"] that by auto
  qed
  then show ?thesis
    by (simp add: resolved_none resolved_no_hands defaults_def)
qed

theorem C4_witness:
  "length handFist = 21
   \<and> resolved vp0 tg0 red (Some []) = Inr ((defaults red)\<lparr>targetColor := cyan\<rparr>)
   \<and> (\<exists>res. resolved vp0 tg0 red (Some [handFist]) = Inr res \<and> targetColor res = red)"
  using C4_idle_colour_is_cyan [of vp0 tg0 red handFist]
  by (simp add: fixtures_length)

text \<open>
  C5 fails as stated: three hands all classified '5' resolve to the defaults (idle, no
  cloud), while the first two of them alone resolve to text mode with the PHOTO cloud.
\<close>

theorem C5_counterexample:
  "resolved vp0 tg0 red (Some [handFive, handFive, handFive]) = Inr (defaults red)
   \<and> resolved vp0 tg0 red (Some (take 2 [handFive, handFive, handFive]))
       = Inr ((defaults red)\<lparr>activeTextTarget := Some (PHOTO tg0), interactionMode := TEXT_MODE\<rparr>)
   \<and> interactionMode (defaults red) = IDLE
   \<and> activeTextTarget (defaults red) = None"
proof -
  have a: "resolved vp0 tg0 red (Some [handFive, handFive, handFive]) = Inr (defaults red)"
    using resolved_long [of "[handFive, handFive, handFive]" vp0 tg0 red]
    by (simp add: fixtures_length resolve_many)
  have b: "resolved vp0 tg0 red (Some [handFive, handFive])
       = Inr ((defaults red)\<lparr>activeTextTarget := Some (PHOTO tg0), interactionMode := TEXT_MODE\<rparr>)"
    using resolved_long [of "[handFive, handFive]" vp0 tg0 red]
    by (simp add: fixtures_length resolve_two gesture_worldHandOf classify_fixtures)
  from a b show ?thesis by (simp add: defaults_def)
qed

text \<open>
  C5, amended. For more than two hands of 21 landmarks each, the resolver leaves the
  defaults: idle mode, no active glyph cloud, the user's colour as the colour target.
\<close>

theorem C5_more_than_two_hands:
  assumes "2 < length hands" and "\<forall>h \<in> set hands. length h = 21"
  shows "resolved vp tg uc (Some hands) = Inr (defaults uc)
     \<and> interactionMode (defaults uc) = IDLE
     \<and> activeTextTarget (defaults uc) = None
     \<and> targetColor (defaults uc) = uc"
proof -
  have "resolved vp tg uc (Some hands) = resolve tg uc hands (map (worldHandOf vp) hands)"
    using resolved_long [of hands vp tg uc] assms(2) by simp
  then show ?thesis
    using assms(1) by (simp add: resolve_many defaults_def)
qed

theorem C5_witness:
  "2 < length [handFive, handFive, handFive] \<and> length handFive = 21
   \<and> resolved vp0 tg0 red (Some [handFive, handFive, handFive]) = Inr (defaults red)
   \<and> targetColor (defaults red) = red"
  using C5_more_than_two_hands [of "[handFive, handFive, handFive]" vp0 tg0 red]
  by (simp add: fixtures_length)

lemma classify_pointHand: "spec_classify pointHand = fist"
  by (simp add: spec_classify_def spec_extended_def pointHand_def distance_def Let_def)

lemma openness_pointHand: "openness pointHand = Inr NaN"
  by (simp add: openness_long fixtures_length) (simp add: pointHand_def js_div_def)

lemma resolved_pointHand:
  "resolved vp0 tg0 cyan (Some [pointHand])
     = Inr ((defaults cyan)\<lparr>interactionMode := INTERACTIVE, diffusion := NaN, rotationSpeed := NaN\<rparr>)"
proof -
  have "resolved vp0 tg0 cyan (Some [pointHand]) = resolve tg0 cyan [pointHand] [worldHandOf vp0 pointHand]"
    using resolved_long [of "[pointHand]" vp0 tg0 cyan] by (simp add: fixtures_length)
  then show ?thesis
    by (simp add: resolve_def elemAt_def bindE_Inr gesture_worldHandOf classify_pointHand
        openness_pointHand defaults_def Let_def)
qed

text \<open>
  C8. The openness ratio is divided without an epsilon floor. For one hand whose
  landmarks all coincide, the palm size and the spread are both zero, the ratio is NaN,
  and so are the diffusion and the rotation speed; the frame then writes NaN positions.
\<close>

theorem C8_no_epsilon_floor:
  "resolved vp0 tg0 cyan (Some [pointHand])
     = Inr ((defaults cyan)\<lparr>interactionMode := INTERACTIVE, diffusion := NaN, rotationSpeed := NaN\<rparr>)
   \<and> \<not> isFinite (diffusion ((defaults cyan)\<lparr>interactionMode := INTERACTIVE, diffusion := NaN, rotationSpeed := NaN\<rparr>))
   \<and> useFrame (inp0 (Some [pointHand]) tg0) frame0 = Inl NaNPositions"
proof -
  have "analyse vp0 tg0 cyan (Some [pointHand]) =
          Inr (map (worldHandOf vp0) [pointHand],
               concat (map (\<lambda>hand. map (\<lambda>idx. project vp0 (hand ! idx)) tipIndices) [pointHand]),
               (defaults cyan)\<lparr>interactionMode := INTERACTIVE, diffusion := NaN, rotationSpeed := NaN\<rparr>)"
    using analyse_long [of "[pointHand]" vp0 tg0 cyan]
    by (simp add: fixtures_length resolve_def elemAt_def bindE_Inr gesture_worldHandOf
        classify_pointHand openness_pointHand defaults_def Let_def)
  then have "useFrame (inp0 (Some [pointHand]) tg0) frame0 = Inl NaNPositions"
    by (simp add: useFrame_def inp0_def bindE_Inr)
  then show ?thesis
    by (simp add: resolved_pointHand)
qed

section \<open>Properties of the rounding to single precision\<close>










lemma expo_eq:
  assumes "0 < x" "2 powi e \<le> x" "x < 2 powi (e + 1)" "- 126 \<le> e"
  shows "expo x = e"
proof -
  have p: "2 powr real_of_int k = (2::real) powi k" for k :: int
    by (simp add: powr_real_of_int')
  have "(1::real) < 2" by simp
  from floor_log_eq_powr_iff [OF assms(1) this, of e] assms(2,3)
  have "\<lfloor>log 2 x\<rfloor> = e" unfolding p by blast
  then show ?thesis using assms(1,4) by (simp add: expo_def)
qed



lemma float32_pos: "0 < x \<Longrightarrow> float32 x = of_int (roundEven (x / ulp x)) * ulp x"
  by (simp add: float32_def)


lemma float32_minus: "float32 (- x) = - float32 x"
  by (simp add: float32_def ulp_def expo_def sgn_minus)










text \<open>Evaluating the rounding of a number whose exponent is known.\<close>

lemma float32_eval:
  assumes "0 < x" "2 powi e \<le> x" "x < 2 powi (e + 1)" "- 126 \<le> e"
    and "roundEven (x / 2 powi (e - 23)) = m"
  shows "float32 x = of_int m * 2 powi (e - 23)"
  using assms(1,5) expo_eq [OF assms(1-4)] by (simp add: float32_pos ulp_def)

lemma float32_examples:
  "float32 (109 / 10) = 11429478 / 1048576"
  "float32 (59 / 10) = 12373197 / 2097152"
  "float32 (1 / 10) = 13421773 / 134217728"
  "float32 (9223 / 490) = 9868384 / 524288"
  "float32 (101 / 5) = 10590618 / 524288"
  by (rule float32_eval [of _ 3, THEN trans] float32_eval [of _ 2, THEN trans]
        float32_eval [of _ "- 4", THEN trans] float32_eval [of _ 4, THEN trans];
      simp add: roundEven_def)+


section \<open>Properties of the glyph point-cloud generator\<close>














text \<open>
  With a density that is not positive and a positive height, the loops do not end: the
  generator returns no buffer. Without a drawing context it returns the empty buffer.
\<close>

lemma scanRows_returns_only_if:
  assumes "scanRows data rnd width height density y s = Some r"
  shows "\<not> (density \<le> 0 \<and> y < height)"
proof (rule scanRows.raw_induct
    [where P = "\<lambda>data rnd width height density y s r. \<not> (density \<le> 0 \<and> y < height)", OF _ assms])
  fix loop :: "nat list \<Rightarrow> (nat \<Rightarrow> real) \<Rightarrow> int \<Rightarrow> int \<Rightarrow> int \<Rightarrow> int \<Rightarrow> nat \<times> real list \<Rightarrow> (nat \<times> real list) option"
  fix data rnd width height density y s r
  assume IH: "\<And>data rnd width height density y s r.
      loop data rnd width height density y s = Some r \<Longrightarrow> \<not> (density \<le> 0 \<and> y < height)"
  assume body: "(if y < height
      then Option.bind (scanRow data rnd width height density y 0 s)
            (loop data rnd width height density (y + density))
      else Some s) = Some r"
  show "\<not> (density \<le> 0 \<and> y < height)"
  proof
    assume a: "density \<le> 0 \<and> y < height"
    then obtain s1 where "loop data rnd width height density (y + density) s1 = Some r"
      using body by (auto simp: bind_eq_Some_conv)
    then have "\<not> (density \<le> 0 \<and> y + density < height)"
      by (rule IH)
    then show False using a by simp
  qed
qed

lemma generate_diverges:
  assumes "density \<le> 0" and "0 < height"
  shows "generateTextParticles (Some raster) rnd text width height density = None"
proof -
  have "scanRows (raster text width height) rnd width height density 0 (0, []) = None"
  proof (cases "scanRows (raster text width height) rnd width height density 0 (0, [])")
    case None
    then show ?thesis .
  next
    case (Some r)
    then show ?thesis using scanRows_returns_only_if [OF Some] assms by simp
  qed
  then show ?thesis by (simp add: generateTextParticles_def)
qed

lemma generate_no_context:
  "generateTextParticles None rnd text width height density = Some []"
  by (simp add: generateTextParticles_def)






section \<open>Properties of the particle integrator\<close>

lemma text_index_in_range:
  assumes "a \<noteq> []" and "length a mod 3 = 0"
  shows "3 * (i mod (length a div 3)) + 2 < length a"
proof -
  have "0 < length a" using assms(1) by simp
  then have pos: "0 < length a div 3" using assms(2) by (simp add: div_greater_zero_iff mod_eq_0_iff_dvd dvd_imp_le)
  have "i mod (length a div 3) < length a div 3" using pos by simp
  then have "3 * (i mod (length a div 3)) + 3 \<le> 3 * (length a div 3)" by simp
  also have "\<dots> = length a" using assms(2) by (simp add: mod_eq_0_iff_dvd)
  finally show ?thesis by simp
qed

lemma targetPosition_text:
  assumes "a \<noteq> []"
  shows "targetPosition TEXT_MODE (Some a) hm dif t hold rnd i = textTarget a i"
  using assms by (simp add: targetPosition_def)

lemma targetPosition_fallback:
  "targetPosition mode (Some []) hm dif t hold rnd i = sphereTarget hm dif t hold rnd i"
  "targetPosition mode None hm dif t hold rnd i = sphereTarget hm dif t hold rnd i"
  by (simp_all add: targetPosition_def)

text \<open>
  C6 fails as stated: the jitter does not depend on the elapsed time. For the one-point
  cloud (4, 0, 0) the target of particle 1 is the same at time 0 and at time 5.
\<close>

theorem C6_counterexample:
  "targetPosition TEXT_MODE (Some [4, 0, 0]) [] 1 0 False (\<lambda>k. 0) 1
     = (4 + sin (1 / 2) * (4 / 100), 0 + cos (9 / 10) * (4 / 100), 0 + sin (12 / 10) * (4 / 100))
   \<and> targetPosition TEXT_MODE (Some [4, 0, 0]) [] 1 5 False (\<lambda>k. 0) 1
     = (4 + sin (1 / 2) * (4 / 100), 0 + cos (9 / 10) * (4 / 100), 0 + sin (12 / 10) * (4 / 100))"
  by (simp add: targetPosition_def textTarget_def)

text \<open>
  C6, amended. In text mode with a non-empty cloud of P whole points, the target of
  particle i before the forces is the cloud's (i mod P)-th point plus the jitter
  0.04 * (sin (0.5 i), cos (0.9 i), sin (1.2 i)): each component is at most 0.04 in
  absolute value and is a function of the particle index alone, so the target is the same
  at every elapsed time.
\<close>

theorem C6_text_target:
  assumes "a \<noteq> []" and "length a mod 3 = 0"
  shows "targetPosition TEXT_MODE (Some a) hm dif t hold rnd i =
           (a ! (3 * (i mod (length a div 3))) + 0.04 * sin (0.5 * real i),
            a ! (3 * (i mod (length a div 3)) + 1) + 0.04 * cos (0.9 * real i),
            a ! (3 * (i mod (length a div 3)) + 2) + 0.04 * sin (1.2 * real i))
         \<and> 3 * (i mod (length a div 3)) + 2 < length a
         \<and> \<bar>0.04 * sin (0.5 * real i)\<bar> \<le> 0.04
         \<and> \<bar>0.04 * cos (0.9 * real i)\<bar> \<le> 0.04
         \<and> \<bar>0.04 * sin (1.2 * real i)\<bar> \<le> 0.04
         \<and> targetPosition TEXT_MODE (Some a) hm dif t hold rnd i
             = targetPosition TEXT_MODE (Some a) hm dif t' hold rnd i"
proof -
  have s: "\<And>v::real. \<bar>0.04 * sin v\<bar> \<le> 0.04" and c: "\<And>v::real. \<bar>0.04 * cos v\<bar> \<le> 0.04"
    by (simp_all add: abs_mult)
  show ?thesis
    using assms text_index_in_range [OF assms, of i] s c
    by (simp add: targetPosition_text textTarget_def Let_def mult.commute)
qed

theorem C6_witness:
  "[4, 0, 0 :: real] \<noteq> [] \<and> length [4, 0, 0 :: real] mod 3 = 0
   \<and> targetPosition TEXT_MODE (Some [4, 0, 0]) [] 1 0 False (\<lambda>k. 0) 7
        = (4 + 0.04 * sin (0.5 * real 7), 0 + 0.04 * cos (0.9 * real 7), 0 + 0.04 * sin (1.2 * real 7))"
  using C6_text_target [of "[4, 0, 0]" "[]" 1 0 False "\<lambda>k. 0" 7 0]
  by simp

lemma analyse_Inr:
  assumes "analyse vp tg uc obs = Inr (wh, pts, res)"
  shows "mapE (worldHand vp) (handsOf obs) = Inr wh"
    and "interactionPoints vp (handsOf obs) = Inr pts"
    and "resolve tg uc (handsOf obs) wh = Inr res"
  using assms by (auto simp: analyse_def Let_def isInr_bindE)

lemma resolve_text_mode:
  assumes "resolve tg uc hands whs = Inr res" and "interactionMode res = TEXT_MODE"
  shows "diffusion res = Fin 1"
proof -
  consider "length hands = 0" | "length hands = 1" | "length hands = 2" | "2 < length hands"
    by linarith
  then show ?thesis
  proof cases
    case 1
    then show ?thesis using assms by (auto simp: resolve_def defaults_def)
  next
    case 2
    then show ?thesis using assms
      by (auto simp: resolve_def defaults_def Let_def isInr_bindE split: if_splits)
  next
    case 3
    then show ?thesis using assms
      by (auto simp: resolve_def defaults_def Let_def isInr_bindE split: if_splits)
  next
    case 4
    then have "resolve tg uc hands whs = Inr (defaults uc)"
      by (simp add: resolve_many)
    then show ?thesis using assms by (auto simp: defaults_def)
  qed
qed

lemma holding_text: "interactionMode res = TEXT_MODE \<Longrightarrow> \<not> holding res"
  by (simp add: holding_def)

lemma useFrame_Inr:
  assumes "mounted inp"
    and "analyse (viewport inp) (textGeometries inp) (userColor inp) (handData inp) = Inr (wh, pts, res)"
    and "diffusion res = Fin d"
  shows "\<exists>st'. useFrame inp st = Inr st'
           \<and> positions st' =
               concat (map (particleStep res d wh pts (particlesTarget inp) (timeRef st + delta inp)
                              (mathRandom inp) (positions st)) [0..<COUNT])"
  using assms by (simp add: useFrame_def bindE_Inr Let_def)

text \<open>
  C9. In a frame whose hands resolve to text mode while the active glyph cloud is missing
  or an empty buffer, the frame completes: every particle's target before the forces is the
  sphere target (home position times the diffusion, here 1, plus the ambient noise), not
  an element of the cloud, and the positions are updated from it.
\<close>

theorem C9_empty_cloud_falls_back:
  assumes "mounted inp"
    and "analyse (viewport inp) (textGeometries inp) (userColor inp) (handData inp) = Inr (wh, pts, res)"
    and "interactionMode res = TEXT_MODE"
    and "activeTextTarget res = None \<or> activeTextTarget res = Some []"
  shows "(\<exists>st'. useFrame inp st = Inr st'
            \<and> positions st' =
                concat (map (particleStep res 1 wh pts (particlesTarget inp) (timeRef st + delta inp)
                               (mathRandom inp) (positions st)) [0..<COUNT]))
         \<and> forcedTarget res 1 wh pts hm t rnd ps i =
             applyForces TEXT_MODE False pts (handCenterOf wh) t (positionOf ps i)
               (sphereTarget hm 1 t False rnd i)
         \<and> targetPosition (interactionMode res) (activeTextTarget res) hm dif t hold rnd i =
             sphereTarget hm dif t hold rnd i"
proof -
  have d: "diffusion res = Fin 1"
    using analyse_Inr(3) [OF assms(2)] assms(3) by (rule resolve_text_mode)
  have a: "\<exists>st'. useFrame inp st = Inr st'
            \<and> positions st' =
                concat (map (particleStep res 1 wh pts (particlesTarget inp) (timeRef st + delta inp)
                               (mathRandom inp) (positions st)) [0..<COUNT])"
    using assms(1,2) d by (rule useFrame_Inr)
  have b: "forcedTarget res 1 wh pts hm t rnd ps i =
             applyForces TEXT_MODE False pts (handCenterOf wh) t (positionOf ps i)
               (sphereTarget hm 1 t False rnd i)"
    using assms(3,4) by (auto simp: forcedTarget_def holding_text targetPosition_fallback)
  have c: "targetPosition (interactionMode res) (activeTextTarget res) hm dif t hold rnd i =
             sphereTarget hm dif t hold rnd i"
    using assms(4) by (auto simp: targetPosition_fallback)
  from a b c show ?thesis by blast
qed

theorem C9_witness:
  "mounted (inp0 (Some [handFive, handFive]) tgEmpty)
   \<and> analyse vp0 tgEmpty cyan (Some [handFive, handFive])
       = Inr (map (worldHandOf vp0) [handFive, handFive],
              concat (map (\<lambda>hand. map (\<lambda>idx. project vp0 (hand ! idx)) tipIndices) [handFive, handFive]),
              (defaults cyan)\<lparr>activeTextTarget := Some [], interactionMode := TEXT_MODE\<rparr>)
   \<and> (\<exists>st'. useFrame (inp0 (Some [handFive, handFive]) tgEmpty) frame0 = Inr st')
   \<and> targetPosition TEXT_MODE (Some []) [5, 5, 5] 1 0 False (\<lambda>k. 0) 0 = (5, 5 + 2 / 10, 5)"
proof -
  let ?res = "(defaults cyan)\<lparr>activeTextTarget := Some [], interactionMode := TEXT_MODE\<rparr>"
  have m: "mounted (inp0 (Some [handFive, handFive]) tgEmpty)"
    by (simp add: inp0_def)
  have a: "analyse vp0 tgEmpty cyan (Some [handFive, handFive])
       = Inr (map (worldHandOf vp0) [handFive, handFive],
              concat (map (\<lambda>hand. map (\<lambda>idx. project vp0 (hand ! idx)) tipIndices) [handFive, handFive]),
              ?res)"
    using analyse_long [of "[handFive, handFive]" vp0 tgEmpty cyan]
    by (simp add: fixtures_length resolve_two gesture_worldHandOf classify_fixtures bindE_Inr
        tgEmpty_def)
  have a': "analyse (viewport (inp0 (Some [handFive, handFive]) tgEmpty))
              (textGeometries (inp0 (Some [handFive, handFive]) tgEmpty))
              (userColor (inp0 (Some [handFive, handFive]) tgEmpty))
              (handData (inp0 (Some [handFive, handFive]) tgEmpty))
       = Inr (map (worldHandOf vp0) [handFive, handFive],
              concat (map (\<lambda>hand. map (\<lambda>idx. project vp0 (hand ! idx)) tipIndices) [handFive, handFive]),
              ?res)"
    using a by (simp add: inp0_def)
  have t: "interactionMode ?res = TEXT_MODE"
    and e: "activeTextTarget ?res = None \<or> activeTextTarget ?res = Some []"
    by simp_all
  from C9_empty_cloud_falls_back [OF m a' t e, of frame0 "[5, 5, 5]" 0 "\<lambda>k. 0" "[]" 0 1 False]
  have "\<exists>st'. useFrame (inp0 (Some [handFive, handFive]) tgEmpty) frame0 = Inr st'"
    and "targetPosition TEXT_MODE (Some []) [5, 5, 5] 1 0 False (\<lambda>k. 0) 0
           = sphereTarget [5, 5, 5] 1 0 False (\<lambda>k. 0) 0"
    by auto
  then show ?thesis
    using m a by (simp add: sphereTarget_def)
qed

lemma addV_assoc: "addV (addV u v) w = addV u (addV v w)"
  by (simp add: addV_def)

lemma addV_zero: "addV u (0, 0, 0) = u"
  by (simp add: addV_def)

lemma repel_push: "repel mode hold pos tgt p = addV tgt (push mode hold pos p)"
  by (cases pos; cases tgt)
     (simp add: repel_def push_def addV_def radiusOf_def forceMultiOf_def Let_def)

lemma foldl_repel:
  "foldl (repel mode hold pos) tgt pts = addV tgt (sumV (map (push mode hold pos) pts))"
proof (induction pts arbitrary: tgt)
  case Nil
  show ?case by (simp add: addV_zero)
next
  case (Cons p pts)
  have "foldl (repel mode hold pos) tgt (p # pts) = foldl (repel mode hold pos) (repel mode hold pos tgt p) pts"
    by simp
  also have "\<dots> = addV (addV tgt (push mode hold pos p)) (sumV (map (push mode hold pos) pts))"
    by (simp only: Cons.IH repel_push)
  finally show ?case by (simp add: addV_assoc)
qed

lemma applyForces_sum:
  "applyForces mode hold pts c t pos tgt =
     (let moved = addV tgt (sumV (map (push mode hold pos) pts))
      in if hold \<and> pts \<noteq> [] then flee c t pos moved else moved)"
  by (cases pts) (simp_all add: applyForces_def foldl_repel addV_zero Let_def del: foldl_Cons)

lemma concat_nth_uniform:
  assumes "\<forall>xs \<in> set xss. length xs = n" and "k < length xss" and "j < n"
  shows "concat xss ! (n * k + j) = xss ! k ! j"
  using assms
proof (induction xss arbitrary: k)
  case Nil
  then show ?case by simp
next
  case (Cons xs xss)
  show ?case
  proof (cases k)
    case 0
    then show ?thesis using Cons.prems by (simp add: nth_append)
  next
    case (Suc k')
    have len: "length xs = n" using Cons.prems(1) by simp
    have "concat (xs # xss) ! (n * k + j) = concat xss ! (n * k' + j)"
      using Suc len by (simp add: nth_append)
    also have "\<dots> = xss ! k' ! j"
      using Cons.prems Suc by (intro Cons.IH) simp_all
    finally show ?thesis using Suc by simp
  qed
qed

lemma length_concat_uniform:
  assumes "\<forall>xs \<in> set xss. length xs = n"
  shows "length (concat xss) = n * length xss"
  using assms by (induction xss) simp_all

lemma resolve_ok_21:
  assumes "\<forall>h \<in> set hands. length h = 21"
  shows "\<exists>res. resolve tg uc hands (map (worldHandOf vp) hands) = Inr res"
  by (rule resolve_ok) (use assms in simp)

lemma particleStep_components:
  "particleStep res d wh pts hm t rnd ps i =
     [float32 (fst (positionOf ps i)
        + (fst (forcedTarget res d wh pts hm t rnd ps i) - fst (positionOf ps i))
          * (if holding res then 0.15 else 0.1)),
      float32 (fst (snd (positionOf ps i))
        + (fst (snd (forcedTarget res d wh pts hm t rnd ps i)) - fst (snd (positionOf ps i)))
          * (if holding res then 0.15 else 0.1)),
      float32 (snd (snd (positionOf ps i))
        + (snd (snd (forcedTarget res d wh pts hm t rnd ps i)) - snd (snd (positionOf ps i)))
          * (if holding res then 0.15 else 0.1))]"
  by (cases "positionOf ps i"; cases "forcedTarget res d wh pts hm t rnd ps i")
     (simp add: particleStep_def Let_def)

lemma forcedTarget_sum:
  "forcedTarget res d wh pts hm t rnd ps i =
     (let moved = addV (targetPosition (interactionMode res) (activeTextTarget res)
                          hm d t (holding res) rnd i)
                       (sumV (map (push (interactionMode res) (holding res) (positionOf ps i)) pts))
      in if holding res \<and> pts \<noteq> [] then flee (handCenterOf wh) t (positionOf ps i) moved
         else moved)"
  by (simp only: forcedTarget_def applyForces_sum)

lemma particle_of_concat:
  assumes "i < n" and "j < 3" and "\<And>k. length (f k) = 3"
  shows "concat (map f [0..<n]) ! (3 * i + j) = f i ! j"
proof -
  have "\<forall>xs \<in> set (map f [0..<n]). length xs = 3"
    using assms(3) by simp
  then have "concat (map f [0..<n]) ! (3 * i + j) = map f [0..<n] ! i ! j"
    using assms(1,2) by (intro concat_nth_uniform) simp_all
  then show ?thesis using assms(1) by simp
qed

text \<open>
  C10. In a frame whose hands have 21 landmarks each, every hand contributes exactly six
  interaction points, the projections of its landmarks 4, 8, 12, 16, 20 and 9, in the
  order of the hands. In every mode and for every number of hands, the frame moves every
  particle towards its target plus the sum of the repulsions of all these points
  (followed by the flee term in a holding frame): the stored position is the old one
  plus the rate times the difference, rounded to single precision. So a third hand,
  which the mode selection ignores, pushes the particles as the first two do.
\<close>

theorem C10_every_hand_repels:
  assumes "\<forall>h \<in> set hands. length h = 21" and "handData inp = Some hands"
  shows "\<exists>wh pts res.
      analyse (viewport inp) (textGeometries inp) (userColor inp) (handData inp) = Inr (wh, pts, res)
      \<and> pts = concat (map (\<lambda>hand. map (\<lambda>idx. project (viewport inp) (hand ! idx))
                                   [4, 8, 12, 16, 20, 9]) hands)
      \<and> length pts = 6 * length hands
      \<and> (\<forall>k<length hands. \<forall>j<6.
            pts ! (6 * k + j) = project (viewport inp) (hands ! k ! ([4, 8, 12, 16, 20, 9] ! j)))
      \<and> (\<forall>d st. mounted inp \<and> diffusion res = Fin d \<longrightarrow>
            (\<exists>st'. useFrame inp st = Inr st'
               \<and> (\<forall>i<COUNT.
                    (let pos = positionOf (positions st) i;
                         moved = addV (targetPosition (interactionMode res) (activeTextTarget res)
                                         (particlesTarget inp) d (timeRef st + delta inp)
                                         (holding res) (mathRandom inp) i)
                                      (sumV (map (push (interactionMode res) (holding res) pos) pts));
                         target = (if holding res \<and> pts \<noteq> []
                                   then flee (handCenterOf wh) (timeRef st + delta inp) pos moved
                                   else moved);
                         rate = (if holding res then 0.15 else 0.1)
                     in positions st' ! (3 * i)
                          = float32 (fst pos + (fst target - fst pos) * rate)
                        \<and> positions st' ! (3 * i + 1)
                          = float32 (fst (snd pos) + (fst (snd target) - fst (snd pos)) * rate)
                        \<and> positions st' ! (3 * i + 2)
                          = float32 (snd (snd pos) + (snd (snd target) - snd (snd pos)) * rate)))))"
proof -
  let ?vp = "viewport inp"
  let ?chunks = "map (\<lambda>hand. map (\<lambda>idx. project ?vp (hand ! idx)) [4, 8, 12, 16, 20, 9]) hands"
  let ?pts = "concat ?chunks"
  let ?wh = "map (worldHandOf ?vp) hands"
  have long: "\<And>h. h \<in> set hands \<Longrightarrow> 21 \<le> length h"
    using assms(1) by simp
  obtain res where res: "resolve (textGeometries inp) (userColor inp) hands ?wh = Inr res"
    using resolve_ok_21 [OF assms(1)] by blast
  have an: "analyse ?vp (textGeometries inp) (userColor inp) (handData inp) = Inr (?wh, ?pts, res)"
    using analyse_long [of hands ?vp "textGeometries inp" "userColor inp"] long res assms(2)
    by (simp add: bindE_Inr tipIndices_def)
  have uni: "\<forall>xs \<in> set ?chunks. length xs = 6"
    by simp
  have len: "length ?pts = 6 * length hands"
    using length_concat_uniform [OF uni] by simp
  have nth: "\<forall>k<length hands. \<forall>j<6.
      ?pts ! (6 * k + j) = project ?vp (hands ! k ! ([4, 8, 12, 16, 20, 9] ! j))"
  proof (intro allI impI)
    fix k j :: nat
    assume k: "k < length hands" and j: "j < 6"
    have "?pts ! (6 * k + j) = ?chunks ! k ! j"
      using uni k j by (intro concat_nth_uniform) simp_all
    also have "\<dots> = map (\<lambda>idx. project ?vp (hands ! k ! idx)) [4, 8, 12, 16, 20, 9] ! j"
      using k by (simp only: nth_map)
    also have "\<dots> = project ?vp (hands ! k ! ([4, 8, 12, 16, 20, 9] ! j))"
      using j by (intro nth_map) simp
    finally show "?pts ! (6 * k + j) = project ?vp (hands ! k ! ([4, 8, 12, 16, 20, 9] ! j))" .
  qed
  have frame: "\<exists>st'. useFrame inp st = Inr st'
       \<and> (\<forall>i<COUNT.
            (let pos = positionOf (positions st) i;
                 moved = addV (targetPosition (interactionMode res) (activeTextTarget res)
                                 (particlesTarget inp) d (timeRef st + delta inp)
                                 (holding res) (mathRandom inp) i)
                              (sumV (map (push (interactionMode res) (holding res) pos) ?pts));
                 target = (if holding res \<and> ?pts \<noteq> []
                           then flee (handCenterOf ?wh) (timeRef st + delta inp) pos moved
                           else moved);
                 rate = (if holding res then 0.15 else 0.1)
             in positions st' ! (3 * i)
                  = float32 (fst pos + (fst target - fst pos) * rate)
                \<and> positions st' ! (3 * i + 1)
                  = float32 (fst (snd pos) + (fst (snd target) - fst (snd pos)) * rate)
                \<and> positions st' ! (3 * i + 2)
                  = float32 (snd (snd pos) + (snd (snd target) - snd (snd pos)) * rate)))"
    if m: "mounted inp" and d: "diffusion res = Fin d" for d st
  proof -
    let ?step = "particleStep res d ?wh ?pts (particlesTarget inp) (timeRef st + delta inp)
                   (mathRandom inp) (positions st)"
    obtain st' where st': "useFrame inp st = Inr st'"
      and ps: "positions st' = concat (map ?step [0..<COUNT])"
      using useFrame_Inr [OF m an d, of st] by blast
    have l3: "\<And>k. length (?step k) = 3"
      by (simp add: particleStep_components)
    have comp: "positions st' ! (3 * i + j) = ?step i ! j" if "i < COUNT" "j < 3" for i j
      unfolding ps using that l3 by (rule particle_of_concat)
    have "\<forall>i<COUNT.
            (let pos = positionOf (positions st) i;
                 moved = addV (targetPosition (interactionMode res) (activeTextTarget res)
                                 (particlesTarget inp) d (timeRef st + delta inp)
                                 (holding res) (mathRandom inp) i)
                              (sumV (map (push (interactionMode res) (holding res) pos) ?pts));
                 target = (if holding res \<and> ?pts \<noteq> []
                           then flee (handCenterOf ?wh) (timeRef st + delta inp) pos moved
                           else moved);
                 rate = (if holding res then 0.15 else 0.1)
             in positions st' ! (3 * i)
                  = float32 (fst pos + (fst target - fst pos) * rate)
                \<and> positions st' ! (3 * i + 1)
                  = float32 (fst (snd pos) + (fst (snd target) - fst (snd pos)) * rate)
                \<and> positions st' ! (3 * i + 2)
                  = float32 (snd (snd pos) + (snd (snd target) - snd (snd pos)) * rate))"
    proof (intro allI impI)
      fix i assume i: "i < COUNT"
      have c0: "positions st' ! (3 * i) = ?step i ! 0"
        using comp [OF i, of 0] by simp
      have c1: "positions st' ! (3 * i + 1) = ?step i ! 1"
        using comp [OF i, of 1] by simp
      have c2: "positions st' ! (3 * i + 2) = ?step i ! 2"
        using comp [OF i, of 2] by simp
      show "(let pos = positionOf (positions st) i;
                 moved = addV (targetPosition (interactionMode res) (activeTextTarget res)
                                 (particlesTarget inp) d (timeRef st + delta inp)
                                 (holding res) (mathRandom inp) i)
                              (sumV (map (push (interactionMode res) (holding res) pos) ?pts));
                 target = (if holding res \<and> ?pts \<noteq> []
                           then flee (handCenterOf ?wh) (timeRef st + delta inp) pos moved
                           else moved);
                 rate = (if holding res then 0.15 else 0.1)
             in positions st' ! (3 * i)
                  = float32 (fst pos + (fst target - fst pos) * rate)
                \<and> positions st' ! (3 * i + 1)
                  = float32 (fst (snd pos) + (fst (snd target) - fst (snd pos)) * rate)
                \<and> positions st' ! (3 * i + 2)
                  = float32 (snd (snd pos) + (snd (snd target) - snd (snd pos)) * rate))"
        unfolding c0 c1 c2 particleStep_components forcedTarget_sum
        by (simp add: Let_def)
    qed
    with st' show ?thesis by blast
  qed
  from an len nth frame show ?thesis by blast
qed

lemma near_position: "positionOf (positions frameNear) 0 = (- 23, 9 / 2, 0)"
  by (simp add: positionOf_def frameNear_def)

lemma idle_target:
  "targetPosition mode None (replicate (COUNT * 3) 5) 1 0 False rnd 0 = (5, 26 / 5, 5)"
  by (simp add: targetPosition_def sphereTarget_def COUNT_def)

lemma projected_tips:
  "project vp0 (handFist ! 4) = \<lparr>px = - 8, py = 9 / 2\<rparr>"
  "project vp0 (handFist ! 8) = \<lparr>px = - 8, py = 9 / 2\<rparr>"
  "project vp0 (handFist ! 12) = \<lparr>px = - 8, py = 9 / 2\<rparr>"
  "project vp0 (handFist ! 16) = \<lparr>px = - 8, py = 9 / 2\<rparr>"
  "project vp0 (handFist ! 20) = \<lparr>px = - 8, py = 9 / 2\<rparr>"
  "project vp0 (handFist ! 9) = \<lparr>px = - 8, py = 9 / 2\<rparr>"
  "project vp0 (handFive ! 4) = \<lparr>px = - 24, py = 9 / 2\<rparr>"
  "project vp0 (handFive ! 8) = \<lparr>px = - 24, py = 9 / 2\<rparr>"
  "project vp0 (handFive ! 12) = \<lparr>px = - 24, py = 9 / 2\<rparr>"
  "project vp0 (handFive ! 16) = \<lparr>px = - 24, py = 9 / 2\<rparr>"
  "project vp0 (handFive ! 20) = \<lparr>px = - 24, py = 9 / 2\<rparr>"
  "project vp0 (handFive ! 9) = \<lparr>px = - 8, py = 9 / 2\<rparr>"
  by (simp_all add: project_def vp0_def handFist_def handFive_def mkHand_nth)

lemma push_far: "push mode False (- 23, 9 / 2, 0) \<lparr>px = - 8, py = 9 / 2\<rparr> = (0, 0, 0)"
  by (simp add: push_def)

lemma push_near: "push IDLE False (- 23, 9 / 2, 0) \<lparr>px = - 24, py = 9 / 2\<rparr> = (135 / 49, 0, 0)"
  by (simp add: push_def)

lemma resolve_two_fists:
  "resolve tg cyan [handFist, handFist] [worldHandOf vp0 handFist, worldHandOf vp0 handFist]
     = Inr ((defaults cyan)\<lparr>interactionMode := INTERACTIVE, targetColor := red\<rparr>)"
  by (simp add: resolve_two gesture_worldHandOf classify_fixtures)
     (simp add: worldHandOf_def vp0_def handFist_def mkHand_nth)

theorem C10_witness:
  "length handFist = 21 \<and> length handFive = 21
   \<and> handData ((inp0 (Some [handFist, handFist, handFive]) tg0)\<lparr>delta := 0\<rparr>)
        = Some [handFist, handFist, handFive]
   \<and> (\<exists>wh pts res.
         analyse vp0 tg0 cyan (Some [handFist, handFist, handFive]) = Inr (wh, pts, res)
         \<and> length pts = 18
         \<and> pts ! 12 = \<lparr>px = - 24, py = 9 / 2\<rparr>
         \<and> interactionMode res = IDLE
         \<and> push (interactionMode res) (holding res) (- 23, 9 / 2, 0) (pts ! 12) = (135 / 49, 0, 0)
         \<and> sumV (map (push (interactionMode res) (holding res) (- 23, 9 / 2, 0)) pts)
             = (675 / 49, 0, 0))
   \<and> (\<exists>st'. useFrame ((inp0 (Some [handFist, handFist, handFive]) tg0)\<lparr>delta := 0\<rparr>) frameNear
                = Inr st'
          \<and> positions st' ! 0 = - (9868384 / 524288))
   \<and> (\<exists>st'. useFrame ((inp0 (Some [handFist, handFist]) tg0)\<lparr>delta := 0\<rparr>) frameNear = Inr st'
          \<and> positions st' ! 0 = - (10590618 / 524288))"
proof -
  let ?hs = "[handFist, handFist, handFive]"
  let ?inp = "(inp0 (Some ?hs) tg0)\<lparr>delta := 0\<rparr>"
  let ?hs2 = "[handFist, handFist]"
  let ?inp2 = "(inp0 (Some ?hs2) tg0)\<lparr>delta := 0\<rparr>"
  have c: "0 < COUNT" by (simp add: COUNT_def)

  have all: "\<forall>h \<in> set ?hs. length h = 21" by (simp add: fixtures_length)
  have hd: "handData ?inp = Some ?hs" by (simp add: inp0_def)
  have sel: "viewport ?inp = vp0" "textGeometries ?inp = tg0" "userColor ?inp = cyan" "mounted ?inp"
    "particlesTarget ?inp = replicate (COUNT * 3) 5" "delta ?inp = 0"
    by (simp_all add: inp0_def)
  obtain wh pts res where
    an: "analyse (viewport ?inp) (textGeometries ?inp) (userColor ?inp) (handData ?inp) = Inr (wh, pts, res)"
    and pts: "pts = concat (map (\<lambda>hand. map (\<lambda>idx. project (viewport ?inp) (hand ! idx))
                                   [4, 8, 12, 16, 20, 9]) ?hs)"
    and frame: "\<forall>d st. mounted ?inp \<and> diffusion res = Fin d \<longrightarrow>
            (\<exists>st'. useFrame ?inp st = Inr st'
               \<and> (\<forall>i<COUNT.
                    (let pos = positionOf (positions st) i;
                         moved = addV (targetPosition (interactionMode res) (activeTextTarget res)
                                         (particlesTarget ?inp) d (timeRef st + delta ?inp)
                                         (holding res) (mathRandom ?inp) i)
                                      (sumV (map (push (interactionMode res) (holding res) pos) pts));
                         target = (if holding res \<and> pts \<noteq> []
                                   then flee (handCenterOf wh) (timeRef st + delta ?inp) pos moved
                                   else moved);
                         rate = (if holding res then 0.15 else 0.1)
                     in positions st' ! (3 * i)
                          = float32 (fst pos + (fst target - fst pos) * rate)
                        \<and> positions st' ! (3 * i + 1)
                          = float32 (fst (snd pos) + (fst (snd target) - fst (snd pos)) * rate)
                        \<and> positions st' ! (3 * i + 2)
                          = float32 (snd (snd pos) + (snd (snd target) - snd (snd pos)) * rate))))"
    using C10_every_hand_repels [OF all hd] by blast
  have an': "analyse vp0 tg0 cyan (Some ?hs) = Inr (wh, pts, res)"
    using an by (simp add: sel hd)
  have "resolve tg0 cyan (handsOf (Some ?hs)) wh = Inr res"
    using an' by (rule analyse_Inr(3))
  then have res: "res = defaults cyan"
    by (simp add: handsOf_def resolve_many)
  have mode: "interactionMode res = IDLE" "holding res = False" "diffusion res = Fin 1"
    "activeTextTarget res = None"
    by (simp_all add: res defaults_def holding_def)
  have ptsv: "pts = replicate 12 \<lparr>px = - 8, py = 9 / 2\<rparr>
                  @ replicate 5 \<lparr>px = - 24, py = 9 / 2\<rparr> @ [\<lparr>px = - 8, py = 9 / 2\<rparr>]"
    unfolding pts sel by (simp only: list.map concat.simps append.simps projected_tips) (simp add: numeral_eq_Suc)
  have len: "length pts = 18" by (simp add: ptsv)
  have p12: "pts ! 12 = \<lparr>px = - 24, py = 9 / 2\<rparr>"
    by (simp add: ptsv nth_append)
  have sum: "sumV (map (push IDLE False (- 23, 9 / 2, 0)) pts) = (675 / 49, 0, 0)"
    by (simp add: ptsv push_far push_near addV_def numeral_eq_Suc)
  obtain st' where st': "useFrame ?inp frameNear = Inr st'"
    and step: "\<forall>i<COUNT.
                    (let pos = positionOf (positions frameNear) i;
                         moved = addV (targetPosition (interactionMode res) (activeTextTarget res)
                                         (particlesTarget ?inp) 1 (timeRef frameNear + delta ?inp)
                                         (holding res) (mathRandom ?inp) i)
                                      (sumV (map (push (interactionMode res) (holding res) pos) pts));
                         target = (if holding res \<and> pts \<noteq> []
                                   then flee (handCenterOf wh) (timeRef frameNear + delta ?inp) pos moved
                                   else moved);
                         rate = (if holding res then 0.15 else 0.1)
                     in positions st' ! (3 * i)
                          = float32 (fst pos + (fst target - fst pos) * rate)
                        \<and> positions st' ! (3 * i + 1)
                          = float32 (fst (snd pos) + (fst (snd target) - fst (snd pos)) * rate)
                        \<and> positions st' ! (3 * i + 2)
                          = float32 (snd (snd pos) + (snd (snd target) - snd (snd pos)) * rate))"
    using frame sel(4) mode(3) by blast
  have t0: "timeRef frameNear + delta ?inp = 0"
    by (simp add: frameNear_def sel)
  have "positions st' ! (3 * 0) = float32 (- 23 + (5 + 675 / 49 - (- 23)) * (1 / 10))"
    using step [rule_format, OF c]
    unfolding t0 mode sel(5) near_position idle_target
    by (simp add: Let_def addV_def sum)
  also have "- 23 + (5 + 675 / 49 - (- 23)) * (1 / 10) = - (9223 / 490 :: real)"
    by simp
  finally have x3: "positions st' ! 0 = - (9868384 / 524288)"
    by (simp add: float32_minus float32_examples)

  have all2: "\<forall>h \<in> set ?hs2. length h = 21" by (simp add: fixtures_length)
  have hd2: "handData ?inp2 = Some ?hs2" by (simp add: inp0_def)
  have sel2: "viewport ?inp2 = vp0" "textGeometries ?inp2 = tg0" "userColor ?inp2 = cyan" "mounted ?inp2"
    "particlesTarget ?inp2 = replicate (COUNT * 3) 5" "delta ?inp2 = 0"
    by (simp_all add: inp0_def)
  obtain wh2 pts2 res2 where
    an2: "analyse (viewport ?inp2) (textGeometries ?inp2) (userColor ?inp2) (handData ?inp2)
            = Inr (wh2, pts2, res2)"
    and pts2: "pts2 = concat (map (\<lambda>hand. map (\<lambda>idx. project (viewport ?inp2) (hand ! idx))
                                   [4, 8, 12, 16, 20, 9]) ?hs2)"
    and frame2: "\<forall>d st. mounted ?inp2 \<and> diffusion res2 = Fin d \<longrightarrow>
            (\<exists>st'. useFrame ?inp2 st = Inr st'
               \<and> (\<forall>i<COUNT.
                    (let pos = positionOf (positions st) i;
                         moved = addV (targetPosition (interactionMode res2) (activeTextTarget res2)
                                         (particlesTarget ?inp2) d (timeRef st + delta ?inp2)
                                         (holding res2) (mathRandom ?inp2) i)
                                      (sumV (map (push (interactionMode res2) (holding res2) pos) pts2));
                         target = (if holding res2 \<and> pts2 \<noteq> []
                                   then flee (handCenterOf wh2) (timeRef st + delta ?inp2) pos moved
                                   else moved);
                         rate = (if holding res2 then 0.15 else 0.1)
                     in positions st' ! (3 * i)
                          = float32 (fst pos + (fst target - fst pos) * rate)
                        \<and> positions st' ! (3 * i + 1)
                          = float32 (fst (snd pos) + (fst (snd target) - fst (snd pos)) * rate)
                        \<and> positions st' ! (3 * i + 2)
                          = float32 (snd (snd pos) + (snd (snd target) - snd (snd pos)) * rate))))"
    using C10_every_hand_repels [OF all2 hd2] by blast
  have an2': "analyse vp0 tg0 cyan (Some ?hs2) = Inr (wh2, pts2, res2)"
    using an2 by (simp add: sel2 hd2)
  have "mapE (worldHand vp0) (handsOf (Some ?hs2)) = Inr wh2"
    using an2' by (rule analyse_Inr(1))
  then have wh2: "wh2 = [worldHandOf vp0 handFist, worldHandOf vp0 handFist]"
    using worldHands_long [of ?hs2 vp0] by (simp add: handsOf_def fixtures_length)
  have "resolve tg0 cyan (handsOf (Some ?hs2)) wh2 = Inr res2"
    using an2' by (rule analyse_Inr(3))
  then have res2: "res2 = (defaults cyan)\<lparr>interactionMode := INTERACTIVE, targetColor := red\<rparr>"
    by (simp add: handsOf_def wh2 resolve_two_fists)
  have mode2: "holding res2 = False" "diffusion res2 = Fin 1" "activeTextTarget res2 = None"
    by (simp_all add: res2 defaults_def holding_def red_def)
  have ptsv2: "pts2 = replicate 12 \<lparr>px = - 8, py = 9 / 2\<rparr>"
    unfolding pts2 sel2 by (simp only: list.map concat.simps append.simps projected_tips) (simp add: numeral_eq_Suc)
  have sum2: "sumV (map (push (interactionMode res2) False (- 23, 9 / 2, 0)) pts2) = (0, 0, 0)"
    by (simp add: ptsv2 push_far addV_def numeral_eq_Suc)
  obtain st2 where st2: "useFrame ?inp2 frameNear = Inr st2"
    and step2: "\<forall>i<COUNT.
                    (let pos = positionOf (positions frameNear) i;
                         moved = addV (targetPosition (interactionMode res2) (activeTextTarget res2)
                                         (particlesTarget ?inp2) 1 (timeRef frameNear + delta ?inp2)
                                         (holding res2) (mathRandom ?inp2) i)
                                      (sumV (map (push (interactionMode res2) (holding res2) pos) pts2));
                         target = (if holding res2 \<and> pts2 \<noteq> []
                                   then flee (handCenterOf wh2) (timeRef frameNear + delta ?inp2) pos moved
                                   else moved);
                         rate = (if holding res2 then 0.15 else 0.1)
                     in positions st2 ! (3 * i)
                          = float32 (fst pos + (fst target - fst pos) * rate)
                        \<and> positions st2 ! (3 * i + 1)
                          = float32 (fst (snd pos) + (fst (snd target) - fst (snd pos)) * rate)
                        \<and> positions st2 ! (3 * i + 2)
                          = float32 (snd (snd pos) + (snd (snd target) - snd (snd pos)) * rate))"
    using frame2 sel2(4) mode2(2) by blast
  have t2: "timeRef frameNear + delta ?inp2 = 0"
    by (simp add: frameNear_def sel2)
  have "positions st2 ! (3 * 0) = float32 (- 23 + (5 + 0 - (- 23)) * (1 / 10))"
    using step2 [rule_format, OF c]
    unfolding t2 mode2 sel2(5) near_position idle_target
    by (simp add: Let_def addV_def sum2)
  also have "- 23 + (5 + 0 - (- 23)) * (1 / 10) = - (101 / 5 :: real)"
    by simp
  finally have x2: "positions st2 ! 0 = - (10590618 / 524288)"
    by (simp add: float32_minus float32_examples)

  have pv: "push (interactionMode res) (holding res) (- 23, 9 / 2, 0) (pts ! 12) = (135 / 49, 0, 0)"
    by (simp add: mode p12 push_near)
  have sv: "sumV (map (push (interactionMode res) (holding res) (- 23, 9 / 2, 0)) pts) = (675 / 49, 0, 0)"
    by (simp add: mode sum)
  from an' len p12 mode(1) pv sv st' x3 st2 x2 hd show ?thesis
    by (simp add: fixtures_length)
qed

end
